theory Spec2Isabelle
  imports Main "HOL-Library.Word"
begin

section \<open>The telemetry exporters of st2110-monitoring\<close>

text \<open>
  A shallow embedding of the gNMI exporter (\<^verbatim>\<open>exporters/gnmi/main.go\<close>), the Arista
  EOS collector (\<^verbatim>\<open>exporters/vendor/arista/eos_collector.go\<close>) and the Evertz EQX
  exporter (\<^verbatim>\<open>exporters/vendor/evertz/eqx_exporter.go\<close>).

  The Prometheus metric vectors of a collector are one map from (metric name, label
  values) to the value last stored. Slice indexing and pointer dereference are checked:
  an index out of range is the result \<open>Inl IndexOutOfRange\<close> and a field read through a
  nil pointer the result \<open>Inl NilDereference\<close>, as the Go runtime panics there. What the Go
  runtime and the libraries compute (\<^verbatim>\<open>json.Unmarshal\<close>, the conversions between
  \<^verbatim>\<open>float64\<close> and the integer types, \<^verbatim>\<open>float64\<close> addition) is a parameter of
  the model, the record \<open>go_runtime\<close>; the type \<open>'f\<close> stands for \<^verbatim>\<open>float64\<close>.
\<close>

subsection \<open>Go runtime and library values\<close>

datatype panic = IndexOutOfRange | NilDereference | TypeAssertionFailed

text \<open>What \<^verbatim>\<open>json.Unmarshal\<close> stores in an \<^verbatim>\<open>interface{}\<close>.\<close>

datatype 'f json_value =
    JNull
  | JBool bool
  | JNumber 'f
  | JString string
  | JArray "'f json_value list"
  | JObject "(string \<times> 'f json_value) list"

record 'f go_runtime =
  json_Unmarshal :: "string \<Rightarrow> (string \<rightharpoonup> 'f json_value) option"
  float64_to_uint64 :: "'f \<Rightarrow> 64 word"
  uint64_to_float64 :: "64 word \<Rightarrow> 'f"
  int_to_float64 :: "64 word \<Rightarrow> 'f"
  float64_zero :: "'f"
  float64_add :: "'f \<Rightarrow> 'f \<Rightarrow> 'f"

text \<open>\<^verbatim>\<open>xs[i]\<close> on a slice.\<close>

definition index :: "'a list \<Rightarrow> nat \<Rightarrow> panic + 'a" where
  "index xs i = (if i < length xs then Inr (xs ! i) else Inl IndexOutOfRange)"

text \<open>A field read \<^verbatim>\<open>p.f\<close> through a pointer \<^verbatim>\<open>p\<close>; \<open>None\<close> is the nil pointer.\<close>

definition deref :: "'a option \<Rightarrow> panic + 'a" where
  "deref p = (case p of None \<Rightarrow> Inl NilDereference | Some x \<Rightarrow> Inr x)"

text \<open>\<^verbatim>\<open>m[k]\<close> on a \<^verbatim>\<open>map[string]string\<close>: the empty string for a missing key.\<close>

definition map_index :: "(string \<rightharpoonup> string) \<Rightarrow> string \<Rightarrow> string" where
  "map_index m k = (case m k of None \<Rightarrow> [] | Some v \<Rightarrow> v)"

definition bind_panic :: "panic + 'a \<Rightarrow> ('a \<Rightarrow> panic + 'b) \<Rightarrow> panic + 'b" where
  "bind_panic r f = (case r of Inl p \<Rightarrow> Inl p | Inr x \<Rightarrow> f x)"

subsection \<open>SNMP messages\<close>

text \<open>
  The dynamic type of \<^verbatim>\<open>pdu.Value\<close>; a Go \<^verbatim>\<open>int\<close> is a 64-bit word read
  as signed.
\<close>

datatype snmp_value =
    SnmpInt "64 word"
  | SnmpUint "64 word"
  | SnmpOctetString string
  | SnmpNil

record SnmpPDU =
  Name :: string
  Value :: snmp_value

subsection \<open>gNMI messages\<close>

record PathElem =
  Name :: string
  Key :: "string \<rightharpoonup> string"

record Path =
  Origin :: string
  Elem :: "PathElem list"

text \<open>The \<^verbatim>\<open>oneof\<close> of \<^verbatim>\<open>gnmi.TypedValue\<close>.\<close>

datatype TypedValue =
    StringVal string
  | IntVal "64 word"
  | UintVal "64 word"
  | BoolVal bool
  | BytesVal string
  | JsonVal string
  | JsonIetfVal string
  | AsciiVal string
  | OtherVal

text \<open>The getters are nil-safe: \<open>None\<close> is the nil \<^verbatim>\<open>*TypedValue\<close>.\<close>

definition GetJsonIetfVal :: "TypedValue option \<Rightarrow> string option" where
  "GetJsonIetfVal v = (case v of Some (JsonIetfVal b) \<Rightarrow> Some b | _ \<Rightarrow> None)"

definition GetUintVal :: "TypedValue option \<Rightarrow> 64 word" where
  "GetUintVal v = (case v of Some (UintVal n) \<Rightarrow> n | _ \<Rightarrow> 0)"

text \<open>
  \<^verbatim>\<open>update.Path\<close> is a pointer, nil when the message on the wire has no path.
\<close>

record Update =
  Path :: "Path option"
  Val :: "TypedValue option"

record Notification =
  Update :: "Update list"

datatype SubscribeResponse =
    SubscribeResponse_Update Notification
  | SubscribeResponse_SyncResponse bool
  | SubscribeResponse_Other

subsection \<open>Collector state\<close>

datatype rpc_error = Canceled | DeadlineExceeded | EOF | Unavailable | Unauthenticated

datatype error =
    ConnectError string rpc_error
  | SubscribeError rpc_error
  | SendError rpc_error
  | StreamError rpc_error

datatype log_line =
    LogConnected string
  | LogStartedStream
  | LogSyncResponse
  | LogStarting string string
  | LogSubscriptionError string error
  | PrintQueueDrops string string string "64 word"

text \<open>
  The state that the collectors work on: the metric vectors, the lines written by
  \<^verbatim>\<open>log\<close> and \<^verbatim>\<open>fmt.Printf\<close>, and the number of calls of \<^verbatim>\<open>grpc.Dial\<close> so far.
\<close>

record 'f state =
  metrics :: "(string \<times> string list) \<rightharpoonup> 'f"
  logged :: "log_line list"
  dials :: nat

text \<open>\<^verbatim>\<open>vec.WithLabelValues(lvs...).Set(v)\<close> on a gauge vector.\<close>

definition gauge_Set :: "string \<Rightarrow> string list \<Rightarrow> 'f \<Rightarrow> 'f state \<Rightarrow> 'f state" where
  "gauge_Set name lvs v st = st\<lparr>metrics := (metrics st)((name, lvs) \<mapsto> v)\<rparr>"

text \<open>
  \<^verbatim>\<open>vec.WithLabelValues(lvs...).Add(v)\<close> on a counter vector: a counter that does
  not exist yet is created at zero.
\<close>

definition counter_Add ::
  "'f go_runtime \<Rightarrow> string \<Rightarrow> string list \<Rightarrow> 'f \<Rightarrow> 'f state \<Rightarrow> 'f state" where
  "counter_Add rt name lvs v st =
     st\<lparr>metrics := (metrics st)((name, lvs) \<mapsto>
       float64_add rt (case metrics st (name, lvs) of None \<Rightarrow> float64_zero rt | Some x \<Rightarrow> x) v)\<rparr>"

definition log_Println :: "log_line \<Rightarrow> 'f state \<Rightarrow> 'f state" where
  "log_Println l st = st\<lparr>logged := logged st @ [l]\<rparr>"

subsection \<open>The collectors\<close>

text \<open>
  Of each collector only the fields the handlers read; the metric vectors are the map
  \<open>metrics\<close> of the state.
\<close>

record EvertzEQXExporter =
  target :: string

record AristaEOSCollector =
  target :: string

record GNMICollector =
  target :: string
  username :: string
  password :: string

subsection \<open>The generic gNMI collector\<close>

record InterfaceCounters =
  InOctets :: "64 word"
  OutOctets :: "64 word"
  InErrors :: "64 word"
  OutErrors :: "64 word"
  InDiscards :: "64 word"
  OutDiscards :: "64 word"

record 'f QoSStats =
  BufferUtilization :: "'f"
  DroppedPackets :: "64 word"

text \<open>\<^verbatim>\<open>data[k].(float64)\<close> with the comma-ok form.\<close>

definition assert_float64 :: "(string \<rightharpoonup> 'f json_value) \<Rightarrow> string \<Rightarrow> 'f option" where
  "assert_float64 data k = (case data k of Some (JNumber x) \<Rightarrow> Some x | _ \<Rightarrow> None)"

definition parseCounters :: "'f go_runtime \<Rightarrow> string \<Rightarrow> InterfaceCounters" where
  "parseCounters rt jsonData =
     (let counters = \<lparr>InOctets = 0, OutOctets = 0, InErrors = 0, OutErrors = 0,
                       InDiscards = 0, OutDiscards = 0\<rparr>
      in case json_Unmarshal rt jsonData of
           None \<Rightarrow> counters
         | Some data \<Rightarrow>
             (let counters = (case assert_float64 data ''in-octets'' of
                                None \<Rightarrow> counters
                              | Some inOctets \<Rightarrow>
                                  counters\<lparr>InOctets := float64_to_uint64 rt inOctets\<rparr>)
              in case assert_float64 data ''out-octets'' of
                   None \<Rightarrow> counters
                 | Some outOctets \<Rightarrow> counters\<lparr>OutOctets := float64_to_uint64 rt outOctets\<rparr>))"

definition parseQoSStats :: "'f go_runtime \<Rightarrow> string \<Rightarrow> 'f QoSStats" where
  "parseQoSStats rt jsonData =
     (let qos = \<lparr>BufferUtilization = float64_zero rt, DroppedPackets = 0\<rparr>
      in case json_Unmarshal rt jsonData of
           None \<Rightarrow> qos
         | Some data \<Rightarrow>
             (let qos = (case assert_float64 data ''buffer-utilization'' of
                           None \<Rightarrow> qos
                         | Some util \<Rightarrow> qos\<lparr>BufferUtilization := util\<rparr>)
              in case assert_float64 data ''dropped-packets'' of
                   None \<Rightarrow> qos
                 | Some drops \<Rightarrow> qos\<lparr>DroppedPackets := float64_to_uint64 rt drops\<rparr>))"

text \<open>The six \<^verbatim>\<open>Set\<close> calls of the interface-counter branch, in source order.\<close>

definition set_interface_counters ::
  "'f go_runtime \<Rightarrow> string \<Rightarrow> string \<Rightarrow> InterfaceCounters \<Rightarrow> 'f state \<Rightarrow> 'f state" where
  "set_interface_counters rt switchName ifaceName counters st =
     gauge_Set ''st2110_switch_interface_tx_drops'' [switchName, ifaceName]
         (uint64_to_float64 rt (OutDiscards counters))
       (gauge_Set ''st2110_switch_interface_rx_drops'' [switchName, ifaceName]
         (uint64_to_float64 rt (InDiscards counters))
       (gauge_Set ''st2110_switch_interface_tx_errors'' [switchName, ifaceName]
         (uint64_to_float64 rt (OutErrors counters))
       (gauge_Set ''st2110_switch_interface_rx_errors'' [switchName, ifaceName]
         (uint64_to_float64 rt (InErrors counters))
       (gauge_Set ''st2110_switch_interface_tx_bytes'' [switchName, ifaceName]
         (uint64_to_float64 rt (OutOctets counters))
       (gauge_Set ''st2110_switch_interface_rx_bytes'' [switchName, ifaceName]
         (uint64_to_float64 rt (InOctets counters)) st)))))"

definition set_qos_stats ::
  "'f go_runtime \<Rightarrow> string \<Rightarrow> string \<Rightarrow> string \<Rightarrow> 'f QoSStats \<Rightarrow> 'f state \<Rightarrow> 'f state" where
  "set_qos_stats rt switchName ifaceName queueName qos st =
     gauge_Set ''st2110_switch_qos_dropped_packets'' [switchName, ifaceName, queueName]
         (uint64_to_float64 rt (DroppedPackets qos))
       (gauge_Set ''st2110_switch_qos_buffer_utilization'' [switchName, ifaceName, queueName]
         (BufferUtilization qos) st)"

text \<open>The first \<^verbatim>\<open>if\<close> of the loop body of \<^verbatim>\<open>handleUpdate\<close>: interface counters.\<close>

definition handle_interfaces ::
  "'f go_runtime \<Rightarrow> string \<Rightarrow> Update \<Rightarrow> 'f state \<Rightarrow> panic + 'f state" where
  "handle_interfaces rt switchName update st =
     (let path = Path update; value = Val update in
      bind_panic (deref path) (\<lambda>p. let elems = Elem p in
      if length elems \<ge> 4 then
        bind_panic (index elems 0) (\<lambda>e0.
          if Name e0 = ''interfaces'' then
            bind_panic (index elems 1) (\<lambda>e1.
              let ifaceName = map_index (Key e1) ''name'' in
              bind_panic (index elems 2) (\<lambda>e2.
                if Name e2 = ''state'' then
                  bind_panic (index elems 3) (\<lambda>e3.
                    if Name e3 = ''counters'' then
                      (case GetJsonIetfVal value of
                         None \<Rightarrow> Inr st
                       | Some jsonVal \<Rightarrow>
                           Inr (set_interface_counters rt switchName ifaceName
                                  (parseCounters rt jsonVal) st))
                    else Inr st)
                else Inr st))
          else Inr st)
      else Inr st))"

text \<open>The second \<^verbatim>\<open>if\<close> of the loop body: QoS queue statistics.\<close>

definition handle_qos ::
  "'f go_runtime \<Rightarrow> string \<Rightarrow> Update \<Rightarrow> 'f state \<Rightarrow> panic + 'f state" where
  "handle_qos rt switchName update st =
     (let path = Path update; value = Val update in
      bind_panic (deref path) (\<lambda>p. let elems = Elem p in
      if length elems \<ge> 7 then
        bind_panic (index elems 0) (\<lambda>e0.
          if Name e0 = ''qos'' then
            bind_panic (index elems 2) (\<lambda>e2.
              let ifaceName = map_index (Key e2) ''name'' in
              bind_panic (index elems 5) (\<lambda>e5.
                let queueName = map_index (Key e5) ''name'' in
                (case GetJsonIetfVal value of
                   None \<Rightarrow> Inr st
                 | Some jsonVal \<Rightarrow>
                     Inr (set_qos_stats rt switchName ifaceName queueName
                            (parseQoSStats rt jsonVal) st))))
          else Inr st)
      else Inr st))"

text \<open>The \<^verbatim>\<open>for _, update := range notification.Update\<close> loop.\<close>

fun handle_updates ::
  "'f go_runtime \<Rightarrow> string \<Rightarrow> Update list \<Rightarrow> 'f state \<Rightarrow> panic + 'f state" where
  "handle_updates rt switchName [] st = Inr st"
| "handle_updates rt switchName (update # rest) st =
     bind_panic (handle_interfaces rt switchName update st) (\<lambda>st1.
       bind_panic (handle_qos rt switchName update st1) (\<lambda>st2.
         handle_updates rt switchName rest st2))"

definition handleUpdate ::
  "'f go_runtime \<Rightarrow> GNMICollector \<Rightarrow> SubscribeResponse \<Rightarrow> 'f state \<Rightarrow> panic + 'f state" where
  "handleUpdate rt c response st =
     (case response of
        SubscribeResponse_Update notification \<Rightarrow>
          handle_updates rt (target c) (Update notification) st
      | SubscribeResponse_SyncResponse b \<Rightarrow> Inr (log_Println LogSyncResponse st)
      | SubscribeResponse_Other \<Rightarrow> Inr st)"

subsection \<open>The subscription session of the gNMI collector\<close>

text \<open>
  What the network does during one call of \<^verbatim>\<open>Subscribe\<close>: the results of
  \<^verbatim>\<open>grpc.Dial\<close>, \<^verbatim>\<open>client.Subscribe\<close> and \<^verbatim>\<open>stream.Send\<close> (\<open>None\<close> is
  a nil error), and what the peer sends to the \<open>i\<close>-th call of \<^verbatim>\<open>stream.Recv\<close>.
\<close>

text \<open>
  The context handed to \<^verbatim>\<open>Subscribe\<close>: \<^verbatim>\<open>context.Background()\<close>, which is never
  cancelled, or a context that is cancelled when the call \<open>k\<close> of \<^verbatim>\<open>Recv\<close> is
  pending (or was, before it). \<^verbatim>\<open>Recv\<close> on a stream whose context is cancelled
  returns the error \<open>Canceled\<close>.
\<close>

datatype "context" = Background | CancelledAtRecv nat

record session =
  dial_result :: "rpc_error option"
  subscribe_result :: "rpc_error option"
  send_result :: "rpc_error option"
  recv_result :: "nat \<Rightarrow> rpc_error + SubscribeResponse"

text \<open>
  How a call ends when it ends: in a panic, or returning a Go \<^verbatim>\<open>error\<close>
  (\<open>None\<close> is nil). A call that runs forever has no outcome.
\<close>

datatype 'f outcome = Panicked panic | Returned "error option" "'f state"

definition Connect :: "GNMICollector \<Rightarrow> session \<Rightarrow> 'f state \<Rightarrow> error option \<times> 'f state" where
  "Connect c net st =
     (let st = st\<lparr>dials := dials st + 1\<rparr> in
      case dial_result net of
        Some err \<Rightarrow> (Some (ConnectError (target c) err), st)
      | None \<Rightarrow> (None, log_Println (LogConnected (target c)) st))"

definition stream_Recv :: "context \<Rightarrow> session \<Rightarrow> nat \<Rightarrow> rpc_error + SubscribeResponse" where
  "stream_Recv ctx net i =
     (case ctx of
        Background \<Rightarrow> recv_result net i
      | CancelledAtRecv k \<Rightarrow> if k \<le> i then Inl Canceled else recv_result net i)"

text \<open>The \<^verbatim>\<open>for\<close> loop of \<^verbatim>\<open>Subscribe\<close>; \<open>i\<close> counts the calls of \<^verbatim>\<open>Recv\<close>.\<close>

partial_function (option) receive_loop ::
  "'f go_runtime \<Rightarrow> GNMICollector \<Rightarrow> (nat \<Rightarrow> rpc_error + SubscribeResponse) \<Rightarrow> nat \<Rightarrow>
   'f state \<Rightarrow> 'f outcome option" where
  "receive_loop rt c recv i st =
     (case recv i of
        Inl err \<Rightarrow> Some (Returned (Some (StreamError err)) st)
      | Inr response \<Rightarrow>
          (case handleUpdate rt c response st of
             Inl p \<Rightarrow> Some (Panicked p)
           | Inr st' \<Rightarrow> receive_loop rt c recv (Suc i) st'))"

definition Subscribe ::
  "'f go_runtime \<Rightarrow> GNMICollector \<Rightarrow> context \<Rightarrow> session \<Rightarrow> 'f state \<Rightarrow>
   'f outcome option" where
  "Subscribe rt c ctx net st =
     (case Connect c net st of
        (Some err, st1) \<Rightarrow> Some (Returned (Some err) st1)
      | (None, st1) \<Rightarrow>
          (case subscribe_result net of
             Some err \<Rightarrow> Some (Returned (Some (SubscribeError err)) st1)
           | None \<Rightarrow>
               (case send_result net of
                  Some err \<Rightarrow> Some (Returned (Some (SendError err)) st1)
                | None \<Rightarrow>
                    receive_loop rt c (stream_Recv ctx net) 0
                      (log_Println LogStartedStream st1))))"

text \<open>
  The goroutine that \<^verbatim>\<open>main\<close> starts for one switch. \<open>network k\<close> is what the
  network does for the session opened by the \<open>k\<close>-th dial.
\<close>

definition collector_goroutine ::
  "'f go_runtime \<Rightarrow> GNMICollector \<Rightarrow> string \<Rightarrow> (nat \<Rightarrow> session) \<Rightarrow> 'f state \<Rightarrow>
   (panic + 'f state) option" where
  "collector_goroutine rt c name network st =
     (let ctx = Background;
          st = log_Println (LogStarting name (target c)) st in
      case Subscribe rt c ctx (network (dials st)) st of
        None \<Rightarrow> None
      | Some (Panicked p) \<Rightarrow> Some (Inl p)
      | Some (Returned None st') \<Rightarrow> Some (Inr st')
      | Some (Returned (Some err) st') \<Rightarrow>
          Some (Inr (log_Println (LogSubscriptionError name err) st')))"

subsection \<open>The Arista EOS collector\<close>

text \<open>The body of the loop over the updates of a notification.\<close>

definition handle_arista ::
  "'f go_runtime \<Rightarrow> AristaEOSCollector \<Rightarrow> Update \<Rightarrow> 'f state \<Rightarrow> panic + 'f state" where
  "handle_arista rt c update st =
     (let path = Path update; value = Val update in
      bind_panic (deref path) (\<lambda>p.
      if Origin p = ''arista'' \<and> length (Elem p) > 7 then
        bind_panic (index (Elem p) 7) (\<lambda>e7.
          if PathElem.Name e7 = ''dropped-pkts'' then
            bind_panic (index (Elem p) 4) (\<lambda>e4.
              let ifaceName = map_index (Key e4) ''name'' in
              bind_panic (index (Elem p) 6) (\<lambda>e6.
                let queueID = map_index (Key e6) ''queue-id'';
                    drops = GetUintVal value;
                    st = counter_Add rt ''arista_hw_queue_drops_total''
                           [AristaEOSCollector.target c, ifaceName, queueID]
                           (uint64_to_float64 rt drops) st
                in if drops > 0
                   then Inr (log_Println
                          (PrintQueueDrops (AristaEOSCollector.target c) ifaceName queueID drops)
                          st)
                   else Inr st))
          else Inr st)
      else Inr st))"

fun handle_arista_updates ::
  "'f go_runtime \<Rightarrow> AristaEOSCollector \<Rightarrow> Update list \<Rightarrow> 'f state \<Rightarrow> panic + 'f state" where
  "handle_arista_updates rt c [] st = Inr st"
| "handle_arista_updates rt c (update # rest) st =
     bind_panic (handle_arista rt c update st) (handle_arista_updates rt c rest)"

definition handleAristaUpdate ::
  "'f go_runtime \<Rightarrow> AristaEOSCollector \<Rightarrow> SubscribeResponse \<Rightarrow> 'f state \<Rightarrow>
   panic + 'f state" where
  "handleAristaUpdate rt c response st =
     (case response of
        SubscribeResponse_Update notification \<Rightarrow>
          handle_arista_updates rt c (Update notification) st
      | _ \<Rightarrow> Inr st)"

subsection \<open>The Evertz EQX exporter\<close>

definition splitOID :: "string \<Rightarrow> string list" where
  "splitOID oid = []"

definition parseEvertzOID :: "string \<Rightarrow> panic + (string \<times> string)" where
  "parseEvertzOID oid =
     (let parts = splitOID oid in
      if length parts \<ge> 14 then
        bind_panic (index parts 13) (\<lambda>chassis.
          bind_panic (index parts 14) (\<lambda>slot. Inr (chassis, slot)))
      else Inr (''1'', ''5''))"

text \<open>The function that \<^verbatim>\<open>collectSNMP\<close> hands to \<^verbatim>\<open>Walk\<close>, called once per PDU.\<close>

definition module_status_pdu ::
  "'f go_runtime \<Rightarrow> EvertzEQXExporter \<Rightarrow> SnmpPDU \<Rightarrow> 'f state \<Rightarrow> panic + 'f state" where
  "module_status_pdu rt e pdu st =
     bind_panic (parseEvertzOID (SnmpPDU.Name pdu)) (\<lambda>(chassis, slot).
       case Value pdu of
         SnmpInt status \<Rightarrow>
           Inr (gauge_Set ''evertz_eqx_module_status'' [chassis, slot, ''unknown'']
                  (int_to_float64 rt status) st)
       | _ \<Rightarrow> Inl TypeAssertionFailed)"

text \<open>
  \<^verbatim>\<open>Walk\<close> calls the function on each PDU the agent returns; the function never
  returns an error, so the walk ends with the error of the transport, if any.
\<close>

fun walk_module_status ::
  "'f go_runtime \<Rightarrow> EvertzEQXExporter \<Rightarrow> SnmpPDU list \<Rightarrow> 'f state \<Rightarrow> panic + 'f state" where
  "walk_module_status rt e [] st = Inr st"
| "walk_module_status rt e (pdu # pdus) st =
     bind_panic (module_status_pdu rt e pdu st) (walk_module_status rt e pdus)"

definition collectSNMP ::
  "'f go_runtime \<Rightarrow> EvertzEQXExporter \<Rightarrow> SnmpPDU list \<Rightarrow> rpc_error option \<Rightarrow> 'f state \<Rightarrow>
   panic + (rpc_error option \<times> 'f state)" where
  "collectSNMP rt e pdus walk_err st =
     bind_panic (walk_module_status rt e pdus st) (\<lambda>st'. Inr (walk_err, st'))"

subsection \<open>Auxiliary notions for the statements\<close>

text \<open>
  The conditions under which \<^verbatim>\<open>handleUpdate\<close> and \<^verbatim>\<open>handleAristaUpdate\<close> act on an
  update, read off their \<^verbatim>\<open>if\<close> statements.
\<close>

definition interface_counters_path :: "PathElem list \<Rightarrow> bool" where
  "interface_counters_path elems =
     (length elems \<ge> 4 \<and> Name (elems ! 0) = ''interfaces'' \<and> Name (elems ! 2) = ''state'' \<and>
      Name (elems ! 3) = ''counters'')"

definition qos_path :: "PathElem list \<Rightarrow> bool" where
  "qos_path elems = (length elems \<ge> 7 \<and> Name (elems ! 0) = ''qos'')"

definition hw_queue_drops_path :: "Path \<Rightarrow> bool" where
  "hw_queue_drops_path path =
     (Origin path = ''arista'' \<and> length (Elem path) > 7 \<and>
      Name (Elem path ! 7) = ''dropped-pkts'')"

text \<open>What \<^verbatim>\<open>handleAristaUpdate\<close> does with an update it acts on.\<close>

definition add_queue_drops ::
  "'f go_runtime \<Rightarrow> AristaEOSCollector \<Rightarrow> Path \<Rightarrow> TypedValue option \<Rightarrow> 'f state \<Rightarrow>
   'f state" where
  "add_queue_drops rt c path value st =
     (let ifaceName = map_index (Key (Elem path ! 4)) ''name'';
          queueID = map_index (Key (Elem path ! 6)) ''queue-id'';
          drops = GetUintVal value;
          st = counter_Add rt ''arista_hw_queue_drops_total''
                 [AristaEOSCollector.target c, ifaceName, queueID] (uint64_to_float64 rt drops) st
      in if drops > 0
         then log_Println (PrintQueueDrops (AristaEOSCollector.target c) ifaceName queueID drops) st
         else st)"

text \<open>A response all of whose updates have a path.\<close>

definition has_paths :: "SubscribeResponse \<Rightarrow> bool" where
  "has_paths response =
     (case response of
        SubscribeResponse_Update notification \<Rightarrow>
          list_all (\<lambda>u. Path u \<noteq> None) (Update notification)
      | _ \<Rightarrow> True)"

text \<open>
  The receive loop on a finite run of responses: \<^verbatim>\<open>handleUpdate\<close> on each, in the
  order of arrival.
\<close>

fun handle_responses ::
  "'f go_runtime \<Rightarrow> GNMICollector \<Rightarrow> SubscribeResponse list \<Rightarrow> 'f state \<Rightarrow> panic + 'f state" where
  "handle_responses rt c [] st = Inr st"
| "handle_responses rt c (response # rest) st =
     bind_panic (handleUpdate rt c response st) (handle_responses rt c rest)"

text \<open>A state overridden with a map of points and extended by log lines.\<close>

definition record_points ::
  "((string \<times> string list) \<rightharpoonup> 'f) \<Rightarrow> log_line list \<Rightarrow> 'f state \<Rightarrow> 'f state" where
  "record_points points lines st =
     st\<lparr>metrics := metrics st ++ points, logged := logged st @ lines\<rparr>"

text \<open>
  The path that \<^verbatim>\<open>SubscribeArista\<close> declares for the hardware queue drops, and the
  matching of a path against a declared one by the names of its elements and of their
  keys, as the design document words it.
\<close>

definition declared_queue_drops_elems :: "PathElem list" where
  "declared_queue_drops_elems =
     [\<lparr>Name = ''eos'', Key = Map.empty\<rparr>,
      \<lparr>Name = ''arista-exp-eos-qos'', Key = Map.empty\<rparr>,
      \<lparr>Name = ''qos'', Key = Map.empty\<rparr>,
      \<lparr>Name = ''interfaces'', Key = Map.empty\<rparr>,
      \<lparr>Name = ''interface'', Key = [''name'' \<mapsto> ''*'']\<rparr>,
      \<lparr>Name = ''queues'', Key = Map.empty\<rparr>,
      \<lparr>Name = ''queue'', Key = [''queue-id'' \<mapsto> ''*'']\<rparr>,
      \<lparr>Name = ''state'', Key = Map.empty\<rparr>,
      \<lparr>Name = ''dropped-pkts'', Key = Map.empty\<rparr>]"

definition declared_queue_drops_path :: "Path" where
  "declared_queue_drops_path = \<lparr>Origin = ''arista'', Elem = declared_queue_drops_elems\<rparr>"

definition matches_template :: "Path \<Rightarrow> Path \<Rightarrow> bool" where
  "matches_template template path =
     (Origin path = Origin template \<and>
      map Name (Elem path) = map Name (Elem template) \<and>
      map (\<lambda>e. dom (Key e)) (Elem path) = map (\<lambda>e. dom (Key e)) (Elem template))"

text \<open>
  The two paths that \<^verbatim>\<open>Subscribe\<close> declares, and the matching of the elements of a
  path against a declared path by the names of the elements and of their keys; the
  elements below the declared ones are free.
\<close>

definition declared_counters_elems :: "PathElem list" where
  "declared_counters_elems =
     [\<lparr>Name = ''interfaces'', Key = Map.empty\<rparr>,
      \<lparr>Name = ''interface'', Key = [''name'' \<mapsto> ''*'']\<rparr>,
      \<lparr>Name = ''state'', Key = Map.empty\<rparr>,
      \<lparr>Name = ''counters'', Key = Map.empty\<rparr>]"

definition declared_qos_elems :: "PathElem list" where
  "declared_qos_elems =
     [\<lparr>Name = ''qos'', Key = Map.empty\<rparr>,
      \<lparr>Name = ''interfaces'', Key = Map.empty\<rparr>,
      \<lparr>Name = ''interface'', Key = [''name'' \<mapsto> ''*'']\<rparr>,
      \<lparr>Name = ''output'', Key = Map.empty\<rparr>,
      \<lparr>Name = ''queues'', Key = Map.empty\<rparr>,
      \<lparr>Name = ''queue'', Key = [''name'' \<mapsto> ''*'']\<rparr>,
      \<lparr>Name = ''state'', Key = Map.empty\<rparr>]"

definition matches_names :: "PathElem list \<Rightarrow> PathElem list \<Rightarrow> bool" where
  "matches_names template elems =
     (map Name (take (length template) elems) = map Name template \<and>
      map (\<lambda>e. dom (Key e)) (take (length template) elems) = map (\<lambda>e. dom (Key e)) template)"

subsection \<open>Sample inputs\<close>

text \<open>
  A runtime whose \<^verbatim>\<open>float64\<close> values are whole numbers, and which decodes two JSON
  documents.
\<close>

definition in_octets_json :: "string" where
  \<open>in_octets_json = ''{"in-octets": 1000000}''\<close>

definition fewer_octets_json :: "string" where
  \<open>fewer_octets_json = ''{"in-octets": 5}''\<close>

definition sample_runtime :: "int go_runtime" where
  "sample_runtime =
     \<lparr>json_Unmarshal = (\<lambda>b. if b = in_octets_json then Some [''in-octets'' \<mapsto> JNumber 1000000]
                              else if b = fewer_octets_json then Some [''in-octets'' \<mapsto> JNumber 5]
                              else None),
      float64_to_uint64 = word_of_int,
      uint64_to_float64 = uint,
      int_to_float64 = sint,
      float64_zero = 0,
      float64_add = (+)\<rparr>"

definition empty_state :: "int state" where
  "empty_state = \<lparr>metrics = Map.empty, logged = [], dials = 0\<rparr>"

definition sample_collector :: "GNMICollector" where
  "sample_collector = \<lparr>target = ''10.0.0.1:6030'', username = ''admin'', password = ''secret''\<rparr>"

definition eth0_counters_elems :: "PathElem list" where
  "eth0_counters_elems =
     [\<lparr>Name = ''interfaces'', Key = Map.empty\<rparr>,
      \<lparr>Name = ''interface'', Key = [''name'' \<mapsto> ''eth0'']\<rparr>,
      \<lparr>Name = ''state'', Key = Map.empty\<rparr>,
      \<lparr>Name = ''counters'', Key = Map.empty\<rparr>]"

text \<open>A response that carries one update with a JSON-IETF value.\<close>

definition json_response :: "Path \<Rightarrow> string \<Rightarrow> SubscribeResponse" where
  "json_response path jsonData =
     SubscribeResponse_Update
       \<lparr>Update = [\<lparr>Path = Some path, Val = Some (JsonIetfVal jsonData)\<rparr>]\<rparr>"

definition cpu_elems :: "PathElem list" where
  "cpu_elems = [\<lparr>Name = ''system'', Key = Map.empty\<rparr>, \<lparr>Name = ''cpu'', Key = Map.empty\<rparr>]"

text \<open>Seven elements of which only the first has the name of a declared path.\<close>

definition undeclared_qos_elems :: "PathElem list" where
  "undeclared_qos_elems =
     [\<lparr>Name = ''qos'', Key = Map.empty\<rparr>,
      \<lparr>Name = ''a'', Key = Map.empty\<rparr>,
      \<lparr>Name = ''b'', Key = Map.empty\<rparr>,
      \<lparr>Name = ''c'', Key = Map.empty\<rparr>,
      \<lparr>Name = ''d'', Key = Map.empty\<rparr>,
      \<lparr>Name = ''e'', Key = Map.empty\<rparr>,
      \<lparr>Name = ''f'', Key = Map.empty\<rparr>]"

text \<open>An update without a path.\<close>

definition pathless_response :: "SubscribeResponse" where
  "pathless_response =
     SubscribeResponse_Update \<lparr>Update = [\<lparr>Path = None, Val = Some (JsonIetfVal in_octets_json)\<rparr>]\<rparr>"

definition sample_arista :: "AristaEOSCollector" where
  "sample_arista = \<lparr>AristaEOSCollector.target = ''10.0.0.2:6030''\<rparr>"

text \<open>
  Two paths that \<^verbatim>\<open>handleAristaUpdate\<close> acts on: the declared path without its element
  \<open>state\<close>, and a path whose first seven elements have names of no declared path.
\<close>

definition short_drops_elems :: "PathElem list" where
  "short_drops_elems =
     [\<lparr>Name = ''eos'', Key = Map.empty\<rparr>,
      \<lparr>Name = ''arista-exp-eos-qos'', Key = Map.empty\<rparr>,
      \<lparr>Name = ''qos'', Key = Map.empty\<rparr>,
      \<lparr>Name = ''interfaces'', Key = Map.empty\<rparr>,
      \<lparr>Name = ''interface'', Key = [''name'' \<mapsto> ''Ethernet1'']\<rparr>,
      \<lparr>Name = ''queues'', Key = Map.empty\<rparr>,
      \<lparr>Name = ''queue'', Key = [''queue-id'' \<mapsto> ''3'']\<rparr>,
      \<lparr>Name = ''dropped-pkts'', Key = Map.empty\<rparr>]"

definition renamed_drops_elems :: "PathElem list" where
  "renamed_drops_elems =
     [\<lparr>Name = ''a'', Key = Map.empty\<rparr>,
      \<lparr>Name = ''b'', Key = Map.empty\<rparr>,
      \<lparr>Name = ''c'', Key = Map.empty\<rparr>,
      \<lparr>Name = ''d'', Key = Map.empty\<rparr>,
      \<lparr>Name = ''e'', Key = [''name'' \<mapsto> ''Ethernet1'']\<rparr>,
      \<lparr>Name = ''f'', Key = Map.empty\<rparr>,
      \<lparr>Name = ''g'', Key = [''queue-id'' \<mapsto> ''3'']\<rparr>,
      \<lparr>Name = ''dropped-pkts'', Key = Map.empty\<rparr>]"

text \<open>The declared path with the wildcards replaced by an interface and a queue.\<close>

definition full_drops_elems :: "PathElem list" where
  "full_drops_elems =
     [\<lparr>Name = ''eos'', Key = Map.empty\<rparr>,
      \<lparr>Name = ''arista-exp-eos-qos'', Key = Map.empty\<rparr>,
      \<lparr>Name = ''qos'', Key = Map.empty\<rparr>,
      \<lparr>Name = ''interfaces'', Key = Map.empty\<rparr>,
      \<lparr>Name = ''interface'', Key = [''name'' \<mapsto> ''Ethernet1'']\<rparr>,
      \<lparr>Name = ''queues'', Key = Map.empty\<rparr>,
      \<lparr>Name = ''queue'', Key = [''queue-id'' \<mapsto> ''3'']\<rparr>,
      \<lparr>Name = ''state'', Key = Map.empty\<rparr>,
      \<lparr>Name = ''dropped-pkts'', Key = Map.empty\<rparr>]"

definition uint_response :: "PathElem list \<Rightarrow> 64 word \<Rightarrow> SubscribeResponse" where
  "uint_response elems n =
     SubscribeResponse_Update
       \<lparr>Update = [\<lparr>Path = Some \<lparr>Origin = ''arista'', Elem = elems\<rparr>,
                   Val = Some (UintVal n)\<rparr>]\<rparr>"

definition sample_exporter :: "EvertzEQXExporter" where
  "sample_exporter = \<lparr>EvertzEQXExporter.target = ''10.0.0.3''\<rparr>"

definition sample_pdu :: "SnmpPDU" where
  "sample_pdu = \<lparr>SnmpPDU.Name = ''.1.3.6.1.4.1.6827.20.1.1.1.1.2.2.7'', Value = SnmpInt 1\<rparr>"

text \<open>A session in which the peer keeps sending sync responses.\<close>

definition idle_session :: "session" where
  "idle_session =
     \<lparr>dial_result = None,
      subscribe_result = None,
      send_result = None,
      recv_result = (\<lambda>i. Inr (SubscribeResponse_SyncResponse True))\<rparr>"

text \<open>A network that refuses the first dial and accepts every later one.\<close>

definition flaky_network :: "nat \<Rightarrow> session" where
  "flaky_network k =
     (if k = 0 then idle_session\<lparr>dial_result := Some Unavailable\<rparr> else idle_session)"

text \<open>A session that delivers one interface-counter update and then loses the stream.\<close>

definition short_session :: "session" where
  "short_session =
     \<lparr>dial_result = None,
      subscribe_result = None,
      send_result = None,
      recv_result = (\<lambda>i. if i = 0
                           then Inr (json_response \<lparr>Origin = [], Elem = eth0_counters_elems\<rparr>
                                       in_octets_json)
                           else Inl Unavailable)\<rparr>"

section \<open>Properties\<close>

subsection \<open>The handlers and the paths they index\<close>

lemma bind_panic_Inr: "bind_panic (Inr x) f = f x"
  by (simp add: bind_panic_def)

lemma bind_panic_Inl: "bind_panic (Inl p) f = Inl p"
  by (simp add: bind_panic_def)

lemma handle_interfaces_eq:
  "Path u = Some p \<Longrightarrow>
   handle_interfaces rt sw u st =
     Inr (if interface_counters_path (Elem p) then
            (case GetJsonIetfVal (Val u) of
               None \<Rightarrow> st
             | Some js \<Rightarrow>
                 set_interface_counters rt sw (map_index (Key (Elem p ! 1)) ''name'')
                   (parseCounters rt js) st)
          else st)"
  by (auto simp: handle_interfaces_def interface_counters_path_def index_def bind_panic_def
      deref_def Let_def split: option.split)

lemma handle_qos_eq:
  "Path u = Some p \<Longrightarrow>
   handle_qos rt sw u st =
     Inr (if qos_path (Elem p) then
            (case GetJsonIetfVal (Val u) of
               None \<Rightarrow> st
             | Some js \<Rightarrow>
                 set_qos_stats rt sw (map_index (Key (Elem p ! 2)) ''name'')
                   (map_index (Key (Elem p ! 5)) ''name'') (parseQoSStats rt js) st)
          else st)"
  by (auto simp: handle_qos_def qos_path_def index_def bind_panic_def deref_def
      Let_def split: option.split)

lemma handle_arista_eq:
  "Path u = Some p \<Longrightarrow>
   handle_arista rt c u st =
     Inr (if hw_queue_drops_path p then add_queue_drops rt c p (Val u) st else st)"
  by (auto simp: handle_arista_def hw_queue_drops_path_def add_queue_drops_def index_def
      bind_panic_def deref_def Let_def)

lemma handle_interfaces_nil: "Path u = None \<Longrightarrow> handle_interfaces rt sw u st = Inl NilDereference"
  by (simp add: handle_interfaces_def deref_def bind_panic_def)

lemma handle_arista_nil: "Path u = None \<Longrightarrow> handle_arista rt c u st = Inl NilDereference"
  by (simp add: handle_arista_def deref_def bind_panic_def)

lemma handle_updates_total:
  "list_all (\<lambda>u. Path u \<noteq> None) us \<Longrightarrow> \<exists>st'. handle_updates rt sw us st = Inr st'"
  by (induction us arbitrary: st)
    (auto simp: handle_interfaces_eq handle_qos_eq bind_panic_Inr)

lemma handle_updates_nil:
  "\<not> list_all (\<lambda>u. Path u \<noteq> None) us \<Longrightarrow> handle_updates rt sw us st = Inl NilDereference"
proof (induction us arbitrary: st)
  case Nil
  then show ?case by simp
next
  case (Cons u us)
  show ?case
  proof (cases "Path u")
    case None
    then show ?thesis
      by (simp add: handle_interfaces_nil bind_panic_Inl)
  next
    case (Some p)
    with Cons.prems have "\<not> list_all (\<lambda>u. Path u \<noteq> None) us"
      by simp
    then show ?thesis
      by (simp add: handle_interfaces_eq [OF Some] handle_qos_eq [OF Some] bind_panic_Inr Cons.IH)
  qed
qed

lemma handleUpdate_total: "has_paths r \<Longrightarrow> \<exists>st'. handleUpdate rt c r st = Inr st'"
  by (cases r) (simp_all add: handleUpdate_def has_paths_def handle_updates_total)

lemma handleUpdate_nil: "\<not> has_paths r \<Longrightarrow> handleUpdate rt c r st = Inl NilDereference"
  by (cases r) (simp_all add: handleUpdate_def has_paths_def handle_updates_nil)

lemma handle_arista_updates_total:
  "list_all (\<lambda>u. Path u \<noteq> None) us \<Longrightarrow> \<exists>st'. handle_arista_updates rt c us st = Inr st'"
  by (induction us arbitrary: st) (auto simp: handle_arista_eq bind_panic_Inr)

lemma handle_arista_updates_nil:
  "\<not> list_all (\<lambda>u. Path u \<noteq> None) us \<Longrightarrow>
   handle_arista_updates rt c us st = Inl NilDereference"
proof (induction us arbitrary: st)
  case Nil
  then show ?case by simp
next
  case (Cons u us)
  show ?case
  proof (cases "Path u")
    case None
    then show ?thesis
      by (simp add: handle_arista_nil bind_panic_Inl)
  next
    case (Some p)
    with Cons.prems have "\<not> list_all (\<lambda>u. Path u \<noteq> None) us"
      by simp
    then show ?thesis
      by (simp add: handle_arista_eq [OF Some] bind_panic_Inr Cons.IH)
  qed
qed

lemma handleAristaUpdate_total: "has_paths r \<Longrightarrow> \<exists>st'. handleAristaUpdate rt c r st = Inr st'"
  by (cases r) (simp_all add: handleAristaUpdate_def has_paths_def handle_arista_updates_total)

lemma handleAristaUpdate_nil:
  "\<not> has_paths r \<Longrightarrow> handleAristaUpdate rt c r st = Inl NilDereference"
  by (cases r) (simp_all add: handleAristaUpdate_def has_paths_def handle_arista_updates_nil)

text \<open>
  Claim C10. Every read \<^verbatim>\<open>path.Elem[i]\<close> of \<^verbatim>\<open>handleUpdate\<close> and of
  \<^verbatim>\<open>handleAristaUpdate\<close> is checked in the model, and an index out of range would end
  the call in \<open>Inl IndexOutOfRange\<close>. No response and no state lead there: the length
  guards cover every index that is read. On a response all of whose updates have a path
  both handlers return normally.
\<close>

theorem handlers_index_in_range:
  "handleUpdate rt c response st \<noteq> Inl IndexOutOfRange \<and>
   handleAristaUpdate rt a response st \<noteq> Inl IndexOutOfRange \<and>
   (has_paths response \<longrightarrow>
      (\<exists>st'. handleUpdate rt c response st = Inr st') \<and>
      (\<exists>st'. handleAristaUpdate rt a response st = Inr st'))"
proof (cases "has_paths response")
  case True
  with handleUpdate_total [of response rt c st] handleAristaUpdate_total [of response rt a st]
  show ?thesis
    by auto
next
  case False
  then show ?thesis
    by (simp add: handleUpdate_nil handleAristaUpdate_nil)
qed

theorem handlers_index_in_range_witness:
  "(\<exists>st'. handleUpdate sample_runtime sample_collector
      (json_response \<lparr>Origin = [], Elem = eth0_counters_elems\<rparr> in_octets_json) empty_state = Inr st') \<and>
   (\<exists>st'. handleAristaUpdate sample_runtime sample_arista
      (json_response \<lparr>Origin = [], Elem = eth0_counters_elems\<rparr> in_octets_json) empty_state = Inr st')"
proof -
  have "has_paths (json_response \<lparr>Origin = [], Elem = eth0_counters_elems\<rparr> in_octets_json)"
    by (simp add: has_paths_def json_response_def)
  with handlers_index_in_range [of sample_runtime sample_collector
      "json_response \<lparr>Origin = [], Elem = eth0_counters_elems\<rparr> in_octets_json" empty_state
      sample_arista]
  show ?thesis
    by blast
qed

subsection \<open>Scenario A: one interface-counter update\<close>

lemma nth_of_map_eq: "map f xs = ys \<Longrightarrow> i < length ys \<Longrightarrow> f (xs ! i) = ys ! i"
  by (metis length_map nth_map)

lemma interface_counters_path_names:
  assumes names: "map Name elems = [''interfaces'', ''interface'', ''state'', ''counters'']"
  shows "interface_counters_path elems"
proof -
  have "length (map Name elems) = 4"
    by (simp only: names) simp
  then have len: "length elems = 4"
    by simp
  have "Name (elems ! 0) = ''interfaces''" "Name (elems ! 2) = ''state''"
    "Name (elems ! 3) = ''counters''"
    using nth_of_map_eq [OF names, of 0] nth_of_map_eq [OF names, of 2]
      nth_of_map_eq [OF names, of 3] by simp_all
  with len show ?thesis
    by (simp add: interface_counters_path_def)
qed

lemma interface_counters_path_not_qos: "interface_counters_path elems \<Longrightarrow> \<not> qos_path elems"
  by (simp add: interface_counters_path_def qos_path_def)

lemma handleUpdate_interface_counters:
  assumes "Path u = Some p" and "interface_counters_path (Elem p)"
    and "Val u = Some (JsonIetfVal js)"
  shows "handleUpdate rt c (SubscribeResponse_Update \<lparr>Update = [u]\<rparr>) st =
    Inr (set_interface_counters rt (target c) (map_index (Key (Elem p ! 1)) ''name'')
           (parseCounters rt js) st)"
  using assms(2,3)
  by (simp add: handleUpdate_def handle_interfaces_eq [OF assms(1)] handle_qos_eq [OF assms(1)]
      bind_panic_Inr interface_counters_path_not_qos GetJsonIetfVal_def)

text \<open>
  Claim C1. An update whose path is interfaces / interface[name=eth0] / state / counters
  and whose JSON value has the number 1000000 in the field \<open>in-octets\<close> leaves the
  received-octets gauge of the collector with the value \<^verbatim>\<open>float64(1000000)\<close> under the
  label values (target of the collector, \<open>eth0\<close>), and changes the gauge under no other
  label values.
\<close>

theorem scenario_A_received_octets:
  assumes path: "Path update = Some path"
    and names: "map Name (Elem path) = [''interfaces'', ''interface'', ''state'', ''counters'']"
    and key: "Key (Elem path ! 1) ''name'' = Some ''eth0''"
    and val: "Val update = Some (JsonIetfVal jsonData)"
    and json: "json_Unmarshal rt jsonData = Some data"
    and field: "data ''in-octets'' = Some (JNumber x)"
    and conv: "float64_to_uint64 rt x = 1000000"
  shows "\<exists>st'. handleUpdate rt c (SubscribeResponse_Update \<lparr>Update = [update]\<rparr>) st = Inr st' \<and>
           metrics st' (''st2110_switch_interface_rx_bytes'', [target c, ''eth0'']) =
             Some (uint64_to_float64 rt 1000000) \<and>
           (\<forall>lvs. lvs \<noteq> [target c, ''eth0''] \<longrightarrow>
              metrics st' (''st2110_switch_interface_rx_bytes'', lvs) =
              metrics st (''st2110_switch_interface_rx_bytes'', lvs))"
proof -
  let ?st' = "set_interface_counters rt (target c) ''eth0'' (parseCounters rt jsonData) st"
  have iface: "map_index (Key (Elem path ! 1)) ''name'' = ''eth0''"
    using key by (simp add: map_index_def)
  have run: "handleUpdate rt c (SubscribeResponse_Update \<lparr>Update = [update]\<rparr>) st = Inr ?st'"
    using handleUpdate_interface_counters [OF path interface_counters_path_names [OF names] val]
    by (simp only: iface)
  have octets: "InOctets (parseCounters rt jsonData) = 1000000"
    by (simp add: parseCounters_def json assert_float64_def field conv Let_def split: option.split)
  have stored: "metrics ?st' (''st2110_switch_interface_rx_bytes'', [target c, ''eth0'']) =
      Some (uint64_to_float64 rt 1000000)"
    by (simp add: set_interface_counters_def gauge_Set_def octets)
  have others: "metrics ?st' (''st2110_switch_interface_rx_bytes'', lvs) =
      metrics st (''st2110_switch_interface_rx_bytes'', lvs)" if "lvs \<noteq> [target c, ''eth0'']" for lvs
    using that by (simp add: set_interface_counters_def gauge_Set_def)
  from run stored others show ?thesis
    by blast
qed

theorem scenario_A_received_octets_witness:
  "\<exists>st'. handleUpdate sample_runtime sample_collector
            (json_response \<lparr>Origin = [], Elem = eth0_counters_elems\<rparr> in_octets_json)
            empty_state = Inr st' \<and>
         metrics st' (''st2110_switch_interface_rx_bytes'', [''10.0.0.1:6030'', ''eth0'']) =
           Some 1000000"
proof -
  let ?path = "\<lparr>Origin = [], Elem = eth0_counters_elems\<rparr>"
  let ?update = "\<lparr>Path = Some ?path, Val = Some (JsonIetfVal in_octets_json)\<rparr>"
  have path: "Path ?update = Some ?path"
    by simp
  have names: "map Name (Elem ?path) = [''interfaces'', ''interface'', ''state'', ''counters'']"
    by (simp add: eth0_counters_elems_def)
  have key: "Key (Elem ?path ! 1) ''name'' = Some ''eth0''"
    by (simp add: eth0_counters_elems_def)
  have val: "Val ?update = Some (JsonIetfVal in_octets_json)"
    by simp
  have json: "json_Unmarshal sample_runtime in_octets_json = Some [''in-octets'' \<mapsto> JNumber 1000000]"
    by (simp add: sample_runtime_def)
  have field: "[''in-octets'' \<mapsto> JNumber (1000000::int)] ''in-octets'' = Some (JNumber 1000000)"
    by simp
  have conv: "float64_to_uint64 sample_runtime 1000000 = 1000000"
    by (simp add: sample_runtime_def)
  have "uint64_to_float64 sample_runtime 1000000 = 1000000"
    by (simp add: sample_runtime_def)
  with scenario_A_received_octets [OF path names key val json field conv,
      of sample_collector empty_state]
  show ?thesis
    by (auto simp: sample_collector_def json_response_def)
qed

subsection \<open>The Evertz OID parser\<close>

text \<open>
  Claim C9. \<^verbatim>\<open>splitOID\<close> returns the empty slice for every OID, so the length guard
  of \<^verbatim>\<open>parseEvertzOID\<close> never passes and the result is chassis \<open>1\<close>, slot \<open>5\<close> for
  every OID.
\<close>

theorem parseEvertzOID_constant:
  "splitOID oid = [] \<and> parseEvertzOID oid = Inr (''1'', ''5'')"
  by (simp add: parseEvertzOID_def splitOID_def)

subsection \<open>What a response does to the state\<close>

lemma record_points_empty: "record_points Map.empty [] st = st"
  by (simp add: record_points_def)

lemma record_points_twice:
  "record_points p2 l2 (record_points p1 l1 st) = record_points (p1 ++ p2) (l1 @ l2) st"
  by (simp add: record_points_def)

lemma gauge_Set_points: "gauge_Set name lvs v st = record_points [(name, lvs) \<mapsto> v] [] st"
  by (simp add: gauge_Set_def record_points_def)

lemma log_Println_points: "log_Println l st = record_points Map.empty [l] st"
  by (simp add: log_Println_def record_points_def)

lemma set_interface_counters_points:
  "\<exists>points. \<forall>st. set_interface_counters rt sw iface cs st = record_points points [] st"
  unfolding set_interface_counters_def gauge_Set_points record_points_twice
  by (simp only: append.simps) blast

lemma set_qos_stats_points:
  "\<exists>points. \<forall>st. set_qos_stats rt sw iface queue qos st = record_points points [] st"
  unfolding set_qos_stats_def gauge_Set_points record_points_twice
  by (simp only: append.simps) blast

lemma handle_interfaces_points:
  assumes path: "Path u = Some p"
  shows "\<exists>points. \<forall>st. handle_interfaces rt sw u st = Inr (record_points points [] st)"
proof (cases "interface_counters_path (Elem p)")
  case False
  then have "\<forall>st. handle_interfaces rt sw u st = Inr (record_points Map.empty [] st)"
    by (simp add: handle_interfaces_eq [OF path] record_points_empty)
  then show ?thesis by blast
next
  case counters: True
  show ?thesis
  proof (cases "GetJsonIetfVal (Val u)")
    case None
    with counters have "\<forall>st. handle_interfaces rt sw u st = Inr (record_points Map.empty [] st)"
      by (simp add: handle_interfaces_eq [OF path] record_points_empty)
    then show ?thesis by blast
  next
    case (Some js)
    obtain points where "\<forall>st. set_interface_counters rt sw (map_index (Key (Elem p ! 1)) ''name'')
        (parseCounters rt js) st = record_points points [] st"
      using set_interface_counters_points by blast
    with counters Some have "\<forall>st. handle_interfaces rt sw u st = Inr (record_points points [] st)"
      by (simp add: handle_interfaces_eq [OF path])
    then show ?thesis by blast
  qed
qed

lemma handle_qos_points:
  assumes path: "Path u = Some p"
  shows "\<exists>points. \<forall>st. handle_qos rt sw u st = Inr (record_points points [] st)"
proof (cases "qos_path (Elem p)")
  case False
  then have "\<forall>st. handle_qos rt sw u st = Inr (record_points Map.empty [] st)"
    by (simp add: handle_qos_eq [OF path] record_points_empty)
  then show ?thesis by blast
next
  case qos: True
  show ?thesis
  proof (cases "GetJsonIetfVal (Val u)")
    case None
    with qos have "\<forall>st. handle_qos rt sw u st = Inr (record_points Map.empty [] st)"
      by (simp add: handle_qos_eq [OF path] record_points_empty)
    then show ?thesis by blast
  next
    case (Some js)
    obtain points where "\<forall>st. set_qos_stats rt sw (map_index (Key (Elem p ! 2)) ''name'')
        (map_index (Key (Elem p ! 5)) ''name'') (parseQoSStats rt js) st =
        record_points points [] st"
      using set_qos_stats_points by blast
    with qos Some have "\<forall>st. handle_qos rt sw u st = Inr (record_points points [] st)"
      by (simp add: handle_qos_eq [OF path])
    then show ?thesis by blast
  qed
qed

lemma handle_updates_points:
  "list_all (\<lambda>u. Path u \<noteq> None) us \<Longrightarrow>
   \<exists>points. \<forall>st. handle_updates rt sw us st = Inr (record_points points [] st)"
proof (induction us)
  case Nil
  have "\<forall>st. handle_updates rt sw [] st = Inr (record_points Map.empty [] st)"
    by (simp add: record_points_empty)
  then show ?case by blast
next
  case (Cons u us)
  from Cons.prems obtain p where path: "Path u = Some p"
    and rest: "list_all (\<lambda>u. Path u \<noteq> None) us"
    by auto
  obtain p1 where p1: "\<forall>st. handle_interfaces rt sw u st = Inr (record_points p1 [] st)"
    using handle_interfaces_points [OF path] by blast
  obtain p2 where p2: "\<forall>st. handle_qos rt sw u st = Inr (record_points p2 [] st)"
    using handle_qos_points [OF path] by blast
  obtain p3 where p3: "\<forall>st. handle_updates rt sw us st = Inr (record_points p3 [] st)"
    using Cons.IH [OF rest] by blast
  have "\<forall>st. handle_updates rt sw (u # us) st = Inr (record_points ((p1 ++ p2) ++ p3) [] st)"
    by (simp add: p1 p2 p3 bind_panic_Inr record_points_twice)
  then show ?case by blast
qed

lemma handleUpdate_points:
  assumes paths: "has_paths response"
  shows "\<exists>points lines. \<forall>st. handleUpdate rt c response st = Inr (record_points points lines st)"
proof (cases response)
  case (SubscribeResponse_Update notification)
  with paths have "list_all (\<lambda>u. Path u \<noteq> None) (Update notification)"
    by (simp add: has_paths_def)
  then obtain points where
    "\<forall>st. handle_updates rt (target c) (Update notification) st = Inr (record_points points [] st)"
    using handle_updates_points by blast
  with SubscribeResponse_Update
  have "\<forall>st. handleUpdate rt c response st = Inr (record_points points [] st)"
    by (simp add: handleUpdate_def)
  then show ?thesis by blast
next
  case (SubscribeResponse_SyncResponse b)
  then have "\<forall>st. handleUpdate rt c response st = Inr (record_points Map.empty [LogSyncResponse] st)"
    by (simp add: handleUpdate_def log_Println_points)
  then show ?thesis by blast
next
  case SubscribeResponse_Other
  then have "\<forall>st. handleUpdate rt c response st = Inr (record_points Map.empty [] st)"
    by (simp add: handleUpdate_def record_points_empty)
  then show ?thesis by blast
qed

text \<open>
  Claim C6. Decoding has no hidden state. \<^verbatim>\<open>parseCounters\<close> and
  \<^verbatim>\<open>parseQoSStats\<close> are functions of the bytes they are given (and of the Go
  runtime). What \<^verbatim>\<open>handleUpdate\<close> does to the store is fixed by the collector and the
  response alone: when every update of the response has a path, there are a map of
  metric points and a list of log lines, the same for every state the call starts in,
  such that the call overrides the store with the points and appends the lines. So two
  runs on the same response write the same points. A response with an update that has
  no path ends the call in the same panic from every state.
\<close>

theorem handleUpdate_stateless:
  "(has_paths response \<longrightarrow>
      (\<exists>points lines. \<forall>st. handleUpdate rt c response st =
         Inr (st\<lparr>metrics := metrics st ++ points, logged := logged st @ lines\<rparr>))) \<and>
   (\<not> has_paths response \<longrightarrow> (\<forall>st. handleUpdate rt c response st = Inl NilDereference))"
  using handleUpdate_points [of response rt c] handleUpdate_nil [of response rt c]
  by (simp add: record_points_def)

theorem handleUpdate_stateless_witness:
  "\<exists>points lines. \<forall>st. handleUpdate sample_runtime sample_collector
       (json_response \<lparr>Origin = [], Elem = eth0_counters_elems\<rparr> in_octets_json) st =
     Inr (st\<lparr>metrics := metrics st ++ points, logged := logged st @ lines\<rparr>)"
proof -
  have "has_paths (json_response \<lparr>Origin = [], Elem = eth0_counters_elems\<rparr> in_octets_json)"
    by (simp add: has_paths_def json_response_def)
  with handleUpdate_stateless [of "json_response \<lparr>Origin = [], Elem = eth0_counters_elems\<rparr>
      in_octets_json" sample_runtime sample_collector]
  show ?thesis
    by blast
qed

lemma handleUpdate_dials: "handleUpdate rt c response st = Inr st' \<Longrightarrow> dials st' = dials st"
proof (cases "has_paths response")
  case True
  assume "handleUpdate rt c response st = Inr st'"
  with handleUpdate_points [OF True, of rt c] show ?thesis
    by (auto simp: record_points_def)
next
  case False
  assume "handleUpdate rt c response st = Inr st'"
  with handleUpdate_nil [OF False, of rt c st] show ?thesis
    by simp
qed

subsection \<open>Last value wins in the generic collector\<close>

lemma handle_responses_total:
  "list_all has_paths rs \<Longrightarrow> \<exists>st'. handle_responses rt c rs st = Inr st'"
proof (induction rs arbitrary: st)
  case Nil
  show ?case by simp
next
  case (Cons r rs)
  then obtain st1 where "handleUpdate rt c r st = Inr st1"
    using handleUpdate_total [of r rt c st] by auto
  with Cons.IH [of st1] Cons.prems show ?case
    by (simp add: bind_panic_Inr)
qed

lemma handle_responses_append:
  "handle_responses rt c (rs @ rs') st =
     bind_panic (handle_responses rt c rs st) (handle_responses rt c rs')"
proof (induction rs arbitrary: st)
  case Nil
  show ?case by (simp add: bind_panic_Inr)
next
  case (Cons r rs)
  show ?case
  proof (cases "handleUpdate rt c r st")
    case (Inl p)
    then show ?thesis
      by (simp add: bind_panic_Inl)
  next
    case (Inr st1)
    with Cons.IH [of st1] show ?thesis
      by (simp add: bind_panic_Inr)
  qed
qed

lemma rx_bytes_after_set:
  "metrics (set_interface_counters rt sw iface cs st) (''st2110_switch_interface_rx_bytes'', [sw, iface]) =
     Some (uint64_to_float64 rt (InOctets cs))"
  by (simp add: set_interface_counters_def gauge_Set_def)

lemma handleUpdate_json_response:
  "interface_counters_path (Elem path) \<Longrightarrow>
   handleUpdate rt c (json_response path js) st =
     Inr (set_interface_counters rt (target c) (map_index (Key (Elem path ! 1)) ''name'')
            (parseCounters rt js) st)"
  by (simp add: json_response_def handleUpdate_interface_counters [of _ path])

text \<open>
  Claim C2, as amended. In the generic collector the received-octets gauge keeps the last
  value: after any non-empty run of interface-counter updates for one path, whether the
  values rise or fall, the stored value is the one decoded from the last update. (The
  Arista collector is left out: it adds each value it receives to its counter.)
\<close>

theorem gauge_keeps_last_value:
  assumes path: "interface_counters_path (Elem path)" and nonempty: "payloads \<noteq> []"
  shows "\<exists>st'. handle_responses rt c (map (json_response path) payloads) st = Inr st' \<and>
           metrics st' (''st2110_switch_interface_rx_bytes'',
                        [target c, map_index (Key (Elem path ! 1)) ''name'']) =
             Some (uint64_to_float64 rt (InOctets (parseCounters rt (last payloads))))"
proof -
  obtain earlier where split: "payloads = earlier @ [last payloads]"
    using nonempty by (metis append_butlast_last_id)
  have "list_all has_paths (map (json_response path) earlier)"
    by (simp add: list_all_iff has_paths_def json_response_def)
  then obtain st1 where
    st1: "handle_responses rt c (map (json_response path) earlier) st = Inr st1"
    using handle_responses_total by blast
  let ?st' = "set_interface_counters rt (target c) (map_index (Key (Elem path ! 1)) ''name'')
      (parseCounters rt (last payloads)) st1"
  have "handleUpdate rt c (json_response path (last payloads)) st1 = Inr ?st'"
    using path by (rule handleUpdate_json_response)
  then have "handle_responses rt c (map (json_response path) (earlier @ [last payloads])) st = Inr ?st'"
    by (simp add: handle_responses_append st1 bind_panic_Inr)
  then have "handle_responses rt c (map (json_response path) payloads) st = Inr ?st'"
    using split by simp
  then show ?thesis
    using rx_bytes_after_set by blast
qed

theorem gauge_keeps_last_value_witness:
  "\<exists>st'. handle_responses sample_runtime sample_collector
            [json_response \<lparr>Origin = [], Elem = eth0_counters_elems\<rparr> in_octets_json,
             json_response \<lparr>Origin = [], Elem = eth0_counters_elems\<rparr> fewer_octets_json]
            empty_state = Inr st' \<and>
         metrics st' (''st2110_switch_interface_rx_bytes'', [''10.0.0.1:6030'', ''eth0'']) = Some 5"
proof -
  let ?path = "\<lparr>Origin = [], Elem = eth0_counters_elems\<rparr>"
  have path: "interface_counters_path (Elem ?path)"
    by (simp add: interface_counters_path_def eth0_counters_elems_def)
  have nonempty: "[in_octets_json, fewer_octets_json] \<noteq> []"
    by simp
  have differ: "fewer_octets_json \<noteq> in_octets_json"
    by (simp add: fewer_octets_json_def in_octets_json_def)
  have "InOctets (parseCounters sample_runtime fewer_octets_json) = 5"
    by (simp add: parseCounters_def sample_runtime_def assert_float64_def differ)
  then have "uint64_to_float64 sample_runtime
      (InOctets (parseCounters sample_runtime (last [in_octets_json, fewer_octets_json]))) = 5"
    by (simp add: sample_runtime_def)
  moreover have "map_index (Key (Elem ?path ! 1)) ''name'' = ''eth0''"
    by (simp add: map_index_def eth0_counters_elems_def)
  ultimately show ?thesis
    using gauge_keeps_last_value [OF path nonempty, of sample_runtime sample_collector empty_state]
    by (simp add: sample_collector_def)
qed

text \<open>
  Claim C2 as stated fails on \<^verbatim>\<open>handleAristaUpdate\<close>: after the values 5 and 7 for
  one queue the counter holds 12, not 7.
\<close>

theorem arista_counter_accumulates:
  "bind_panic (handleAristaUpdate sample_runtime sample_arista (uint_response short_drops_elems 5)
                 empty_state)
     (handleAristaUpdate sample_runtime sample_arista (uint_response short_drops_elems 7)) =
   Inr \<lparr>metrics = [(''arista_hw_queue_drops_total'', [''10.0.0.2:6030'', ''Ethernet1'', ''3'']) \<mapsto> 12],
        logged = [PrintQueueDrops ''10.0.0.2:6030'' ''Ethernet1'' ''3'' 5,
                  PrintQueueDrops ''10.0.0.2:6030'' ''Ethernet1'' ''3'' 7],
        dials = 0\<rparr>"
  by (simp add: handleAristaUpdate_def uint_response_def handle_arista_eq bind_panic_Inr
      hw_queue_drops_path_def short_drops_elems_def add_queue_drops_def GetUintVal_def
      counter_Add_def log_Println_def sample_runtime_def sample_arista_def empty_state_def
      map_index_def Let_def)

subsection \<open>The subscription session\<close>

lemma handleUpdate_Inl: "handleUpdate rt c response st = Inl p \<Longrightarrow> p = NilDereference"
  using handleUpdate_total [of response rt c st] handleUpdate_nil [of response rt c st]
  by (cases "has_paths response") auto

lemma receive_loop_Inl:
  "recv i = Inl err \<Longrightarrow> receive_loop rt c recv i st = Some (Returned (Some (StreamError err)) st)"
  by (subst receive_loop.simps) simp

lemma receive_loop_Inr:
  "recv i = Inr response \<Longrightarrow> handleUpdate rt c response st = Inr st' \<Longrightarrow>
   receive_loop rt c recv i st = receive_loop rt c recv (Suc i) st'"
  by (subst receive_loop.simps) simp

lemma receive_loop_panic:
  "recv i = Inr response \<Longrightarrow> handleUpdate rt c response st = Inl p \<Longrightarrow>
   receive_loop rt c recv i st = Some (Panicked p)"
  by (subst receive_loop.simps) simp

lemma receive_loop_outcome:
  assumes returned: "receive_loop rt c recv i st = Some out"
  shows "out = Panicked NilDereference \<or>
    (\<exists>err st'. out = Returned (Some (StreamError err)) st' \<and> dials st' = dials st)"
proof (rule receive_loop.raw_induct [OF _ returned])
  fix loop :: "'a go_runtime \<Rightarrow> GNMICollector \<Rightarrow> (nat \<Rightarrow> rpc_error + SubscribeResponse) \<Rightarrow> nat \<Rightarrow>
      'a state \<Rightarrow> 'a outcome option"
  fix rt c recv i st out
  assume IH: "\<And>rt c recv i st out. loop rt c recv i st = Some out \<Longrightarrow>
      out = Panicked NilDereference \<or>
      (\<exists>err st'. out = Returned (Some (StreamError err)) st' \<and> dials st' = dials st)"
  assume body: "(case recv i of
        Inl err \<Rightarrow> Some (Returned (Some (StreamError err)) st)
      | Inr response \<Rightarrow>
          (case handleUpdate rt c response st of
             Inl p \<Rightarrow> Some (Panicked p)
           | Inr st' \<Rightarrow> loop rt c recv (Suc i) st')) = Some out"
  show "out = Panicked NilDereference \<or>
      (\<exists>err st'. out = Returned (Some (StreamError err)) st' \<and> dials st' = dials st)"
  proof (cases "recv i")
    case (Inl err)
    with body show ?thesis by auto
  next
    case received: (Inr response)
    show ?thesis
    proof (cases "handleUpdate rt c response st")
      case (Inl p)
      with received body handleUpdate_Inl [OF Inl] show ?thesis
        by simp
    next
      case (Inr st1)
      with received body have "loop rt c recv (Suc i) st1 = Some out"
        by simp
      then have "out = Panicked NilDereference \<or>
          (\<exists>err st'. out = Returned (Some (StreamError err)) st' \<and> dials st' = dials st1)"
        by (rule IH)
      with handleUpdate_dials [OF Inr] show ?thesis
        by simp
    qed
  qed
qed

lemma receive_loop_run:
  assumes "\<forall>k<n. \<exists>r. recv (i + k) = Inr r \<and> has_paths r"
  shows "\<exists>st'. receive_loop rt c recv i st = receive_loop rt c recv (i + n) st'"
  using assms
proof (induction n arbitrary: i st)
  case 0
  show ?case by (intro exI [of _ st]) simp
next
  case (Suc n)
  from Suc.prems obtain r where r: "recv i = Inr r" "has_paths r"
    by force
  obtain st1 where st1: "handleUpdate rt c r st = Inr st1"
    using handleUpdate_total [OF r(2)] by blast
  have "\<forall>k<n. \<exists>r. recv (Suc i + k) = Inr r \<and> has_paths r"
  proof (intro allI impI)
    fix k assume "k < n"
    then have "Suc k < Suc n" by simp
    with Suc.prems have "\<exists>r. recv (i + Suc k) = Inr r \<and> has_paths r" by blast
    then show "\<exists>r. recv (Suc i + k) = Inr r \<and> has_paths r" by simp
  qed
  then obtain st' where
    "receive_loop rt c recv (Suc i) st1 = receive_loop rt c recv (Suc i + n) st'"
    using Suc.IH by blast
  then have "receive_loop rt c recv i st = receive_loop rt c recv (i + Suc n) st'"
    by (simp add: receive_loop_Inr [of recv i r rt c st st1] r st1)
  then show ?case
    by blast
qed

lemma receive_loop_first_error:
  assumes "recv n = Inl err" and "\<forall>k<n. \<exists>r. recv k = Inr r \<and> has_paths r"
  shows "\<exists>st'. receive_loop rt c recv 0 st = Some (Returned (Some (StreamError err)) st')"
proof -
  obtain st' where "receive_loop rt c recv 0 st = receive_loop rt c recv n st'"
    using receive_loop_run [of n recv 0 rt c st] assms(2) by auto
  with receive_loop_Inl [of recv n err rt c] assms(1) show ?thesis
    by simp
qed

lemma receive_loop_first_pathless:
  assumes "recv n = Inr response" and "\<not> has_paths response"
    and "\<forall>k<n. \<exists>r. recv k = Inr r \<and> has_paths r"
  shows "receive_loop rt c recv 0 st = Some (Panicked NilDereference)"
proof -
  obtain st' where "receive_loop rt c recv 0 st = receive_loop rt c recv n st'"
    using receive_loop_run [of n recv 0 rt c st] assms(3) by auto
  with receive_loop_panic [of recv n response rt c _ NilDereference] assms(1)
    handleUpdate_nil [OF assms(2), of rt c]
  show ?thesis
    by simp
qed

lemma Subscribe_started:
  assumes "dial_result net = None" and "subscribe_result net = None" and "send_result net = None"
  shows "Subscribe rt c ctx net st =
    receive_loop rt c (stream_Recv ctx net) 0
      (log_Println LogStartedStream
        (log_Println (LogConnected (target c)) (st\<lparr>dials := dials st + 1\<rparr>)))"
  using assms by (simp add: Subscribe_def Connect_def Let_def)

lemma Subscribe_outcome:
  assumes "Subscribe rt c ctx net st = Some out"
  shows "out = Panicked NilDereference \<or>
    (\<exists>err st'. out = Returned (Some err) st' \<and> dials st' = dials st + 1)"
proof (cases "dial_result net")
  case (Some err)
  with assms show ?thesis
    by (auto simp: Subscribe_def Connect_def Let_def)
next
  case dial: None
  show ?thesis
  proof (cases "subscribe_result net")
    case (Some err)
    with assms dial show ?thesis
      by (auto simp: Subscribe_def Connect_def Let_def log_Println_def)
  next
    case sub: None
    show ?thesis
    proof (cases "send_result net")
      case (Some err)
      with assms dial sub show ?thesis
        by (auto simp: Subscribe_def Connect_def Let_def log_Println_def)
    next
      case None
      from assms have "receive_loop rt c (stream_Recv ctx net) 0
          (log_Println LogStartedStream
            (log_Println (LogConnected (target c)) (st\<lparr>dials := dials st + 1\<rparr>))) = Some out"
        by (simp only: Subscribe_started [OF dial sub None])
      from receive_loop_outcome [OF this] show ?thesis
        by (auto simp: log_Println_def)
    qed
  qed
qed

text \<open>
  Claim C3, as amended. \<^verbatim>\<open>Subscribe\<close> never returns nil, whether or not the context
  is cancelled: a call that ends has returned an error or has panicked on an update
  without a path. When the connection, the subscription and the send succeed and the
  first error of \<^verbatim>\<open>Recv\<close>, that of a cancelled context included, comes after \<open>n\<close>
  responses whose updates all have a path, \<^verbatim>\<open>Subscribe\<close> does return, and what it
  returns is that error wrapped as a stream error. When instead the response \<open>n\<close> is the
  first with an update that has no path, the call ends in a nil dereference.
\<close>

theorem Subscribe_never_returns_nil:
  "(Subscribe rt c ctx net st = Some out \<longrightarrow>
      out = Panicked NilDereference \<or> (\<exists>err st'. out = Returned (Some err) st')) \<and>
   (dial_result net = None \<and> subscribe_result net = None \<and> send_result net = None \<and>
    stream_Recv ctx net n = Inl rpc \<and>
    (\<forall>k<n. \<exists>r. stream_Recv ctx net k = Inr r \<and> has_paths r) \<longrightarrow>
      (\<exists>st'. Subscribe rt c ctx net st = Some (Returned (Some (StreamError rpc)) st'))) \<and>
   (dial_result net = None \<and> subscribe_result net = None \<and> send_result net = None \<and>
    stream_Recv ctx net n = Inr response \<and> \<not> has_paths response \<and>
    (\<forall>k<n. \<exists>r. stream_Recv ctx net k = Inr r \<and> has_paths r) \<longrightarrow>
      Subscribe rt c ctx net st = Some (Panicked NilDereference))"
proof (intro conjI impI)
  assume "Subscribe rt c ctx net st = Some out"
  from Subscribe_outcome [OF this]
  show "out = Panicked NilDereference \<or> (\<exists>err st'. out = Returned (Some err) st')"
    by blast
next
  assume "dial_result net = None \<and> subscribe_result net = None \<and> send_result net = None \<and>
    stream_Recv ctx net n = Inl rpc \<and>
    (\<forall>k<n. \<exists>r. stream_Recv ctx net k = Inr r \<and> has_paths r)"
  then show "\<exists>st'. Subscribe rt c ctx net st = Some (Returned (Some (StreamError rpc)) st')"
    using receive_loop_first_error [of "stream_Recv ctx net" n rpc rt c]
    by (simp add: Subscribe_started)
next
  assume "dial_result net = None \<and> subscribe_result net = None \<and> send_result net = None \<and>
    stream_Recv ctx net n = Inr response \<and> \<not> has_paths response \<and>
    (\<forall>k<n. \<exists>r. stream_Recv ctx net k = Inr r \<and> has_paths r)"
  then show "Subscribe rt c ctx net st = Some (Panicked NilDereference)"
    using receive_loop_first_pathless [of "stream_Recv ctx net" n response rt c]
    by (simp add: Subscribe_started)
qed

theorem Subscribe_never_returns_nil_witness:
  "\<exists>st'. Subscribe sample_runtime sample_collector Background short_session empty_state =
     Some (Returned (Some (StreamError Unavailable)) st')"
proof -
  have "has_paths (json_response \<lparr>Origin = [], Elem = eth0_counters_elems\<rparr> in_octets_json)"
    by (simp add: has_paths_def json_response_def)
  with Subscribe_never_returns_nil
    [of sample_runtime sample_collector Background short_session empty_state _ 1 Unavailable]
  show ?thesis
    by (simp add: short_session_def stream_Recv_def)
qed

text \<open>
  Claim C3 as stated fails: with the context cancelled while the second call of
  \<^verbatim>\<open>Recv\<close> is pending, \<^verbatim>\<open>Subscribe\<close> returns a stream error, not nil.
\<close>

theorem cancellation_returns_error:
  "Subscribe sample_runtime sample_collector (CancelledAtRecv 1) idle_session empty_state =
     Some (Returned (Some (StreamError Canceled))
       \<lparr>metrics = Map.empty,
        logged = [LogConnected ''10.0.0.1:6030'', LogStartedStream, LogSyncResponse],
        dials = 1\<rparr>)"
proof -
  let ?recv = "stream_Recv (CancelledAtRecv 1) idle_session"
  have first: "?recv 0 = Inr (SubscribeResponse_SyncResponse True)"
    and second: "?recv (Suc 0) = Inl Canceled"
    by (simp_all add: stream_Recv_def idle_session_def)
  have "Subscribe sample_runtime sample_collector (CancelledAtRecv 1) idle_session empty_state =
      receive_loop sample_runtime sample_collector ?recv 0
        \<lparr>metrics = Map.empty, logged = [LogConnected ''10.0.0.1:6030'', LogStartedStream],
         dials = 1\<rparr>"
    by (simp add: Subscribe_def Connect_def idle_session_def log_Println_def empty_state_def
        sample_collector_def Let_def)
  also have "\<dots> = receive_loop sample_runtime sample_collector ?recv (Suc 0)
        \<lparr>metrics = Map.empty,
         logged = [LogConnected ''10.0.0.1:6030'', LogStartedStream, LogSyncResponse],
         dials = 1\<rparr>"
    using first
    by (subst receive_loop.simps) (simp add: handleUpdate_def log_Println_def)
  also have "\<dots> = Some (Returned (Some (StreamError Canceled))
        \<lparr>metrics = Map.empty,
         logged = [LogConnected ''10.0.0.1:6030'', LogStartedStream, LogSyncResponse],
         dials = 1\<rparr>)"
    using second by (subst receive_loop.simps) simp
  finally show ?thesis .
qed

subsection \<open>The goroutine of a collector\<close>

text \<open>
  Claim C4, as amended. The body of the goroutine that \<^verbatim>\<open>main\<close> starts for a switch
  runs one session and does not retry. Whenever it ends normally it has dialled exactly
  once and its last log line is the error of that session; and when the stream of the
  session breaks after \<open>n\<close> responses whose updates all have a path it does end, with the
  stream error logged. Nothing waits.
\<close>

theorem collector_goroutine_single_session:
  "(collector_goroutine rt c name network st = Some (Inr st') \<longrightarrow>
      dials st' = dials st + 1 \<and> (\<exists>err. last (logged st') = LogSubscriptionError name err)) \<and>
   (dial_result (network (dials st)) = None \<and> subscribe_result (network (dials st)) = None \<and>
    send_result (network (dials st)) = None \<and> recv_result (network (dials st)) n = Inl rpc \<and>
    (\<forall>k<n. \<exists>r. recv_result (network (dials st)) k = Inr r \<and> has_paths r) \<longrightarrow>
      (\<exists>st'. collector_goroutine rt c name network st = Some (Inr st') \<and>
         dials st' = dials st + 1 \<and>
         last (logged st') = LogSubscriptionError name (StreamError rpc)))"
proof (intro conjI impI)
  let ?st0 = "log_Println (LogStarting name (target c)) st"
  let ?net = "network (dials st)"
  have dials0: "dials ?st0 = dials st"
    by (simp add: log_Println_def)
  {
    assume returned: "collector_goroutine rt c name network st = Some (Inr st')"
    then obtain out where out: "Subscribe rt c Background ?net ?st0 = Some out"
      by (auto simp: collector_goroutine_def Let_def dials0 split: option.splits)
    from returned out have "out \<noteq> Panicked NilDereference"
      by (auto simp: collector_goroutine_def Let_def dials0)
    with Subscribe_outcome [OF out] obtain err st1 where
      st1: "out = Returned (Some err) st1" "dials st1 = dials st + 1"
      by (auto simp: dials0)
    from returned out st1 have "st' = log_Println (LogSubscriptionError name err) st1"
      by (simp add: collector_goroutine_def Let_def dials0)
    with st1 have "dials st' = dials st + 1" "last (logged st') = LogSubscriptionError name err"
      by (simp_all add: log_Println_def)
    then show "dials st' = dials st + 1" "\<exists>err. last (logged st') = LogSubscriptionError name err"
      by blast+
  }
  {
    assume session: "dial_result ?net = None \<and> subscribe_result ?net = None \<and>
      send_result ?net = None \<and> recv_result ?net n = Inl rpc \<and>
      (\<forall>k<n. \<exists>r. recv_result ?net k = Inr r \<and> has_paths r)"
    then have "\<exists>st1. Subscribe rt c Background ?net ?st0 =
        Some (Returned (Some (StreamError rpc)) st1)"
      using receive_loop_first_error [of "stream_Recv Background ?net" n rpc rt c]
      by (simp add: Subscribe_started stream_Recv_def)
    then obtain st1 where
      out: "Subscribe rt c Background ?net ?st0 = Some (Returned (Some (StreamError rpc)) st1)"
      by blast
    from Subscribe_outcome [OF out] have "dials st1 = dials st + 1"
      by (simp add: dials0)
    with out show "\<exists>st'. collector_goroutine rt c name network st = Some (Inr st') \<and>
        dials st' = dials st + 1 \<and> last (logged st') = LogSubscriptionError name (StreamError rpc)"
      by (simp add: collector_goroutine_def Let_def dials0 log_Println_def)
  }
qed

theorem collector_goroutine_single_session_witness:
  "\<exists>st'. collector_goroutine sample_runtime sample_collector ''sw1'' (\<lambda>k. short_session)
            empty_state = Some (Inr st') \<and>
         dials st' = 1 \<and>
         last (logged st') = LogSubscriptionError ''sw1'' (StreamError Unavailable)"
proof -
  have "has_paths (json_response \<lparr>Origin = [], Elem = eth0_counters_elems\<rparr> in_octets_json)"
    by (simp add: has_paths_def json_response_def)
  with collector_goroutine_single_session
    [of sample_runtime sample_collector "''sw1''" "\<lambda>k. short_session" empty_state _ 1 Unavailable]
  show ?thesis
    by (simp add: short_session_def empty_state_def)
qed

text \<open>
  Claim C4 as stated fails: on a network that refuses the first dial and would accept
  the second, the goroutine ends after one dial.
\<close>

theorem no_retry_after_failed_dial:
  "collector_goroutine sample_runtime sample_collector ''sw1'' flaky_network empty_state =
     Some (Inr \<lparr>metrics = Map.empty,
                logged = [LogStarting ''sw1'' ''10.0.0.1:6030'',
                          LogSubscriptionError ''sw1'' (ConnectError ''10.0.0.1:6030'' Unavailable)],
                dials = 1\<rparr>)"
  by (simp add: collector_goroutine_def Subscribe_def Connect_def flaky_network_def
      idle_session_def log_Println_def empty_state_def sample_collector_def Let_def)

subsection \<open>Updates that no guard accepts\<close>

lemma handle_updates_append:
  "handle_updates rt sw (us @ us') st =
     bind_panic (handle_updates rt sw us st) (handle_updates rt sw us')"
  by (induction us arbitrary: st) (auto simp: bind_panic_def split: sum.splits)

lemma handle_updates_skip:
  assumes "Path u = Some p" and "\<not> interface_counters_path (Elem p)" and "\<not> qos_path (Elem p)"
  shows "handle_updates rt sw (u # us) st = handle_updates rt sw us st"
  using assms(2,3)
  by (simp add: handle_interfaces_eq [OF assms(1)] handle_qos_eq [OF assms(1)] bind_panic_Inr)

lemma matches_names_counters:
  assumes "matches_names declared_counters_elems elems"
  shows "interface_counters_path elems"
proof -
  have declared: "length declared_counters_elems = 4"
    by (simp add: declared_counters_elems_def)
  from assms have "map Name (take 4 elems) = map Name declared_counters_elems"
    unfolding matches_names_def declared by simp
  then have names: "map Name (take 4 elems) =
      [''interfaces'', ''interface'', ''state'', ''counters'']"
    by (simp add: declared_counters_elems_def)
  then have "length (map Name (take 4 elems)) = 4"
    by (simp only:) simp
  then have len: "4 \<le> length elems"
    by simp
  from names have "interface_counters_path (take 4 elems)"
    by (rule interface_counters_path_names)
  with len show ?thesis
    by (simp add: interface_counters_path_def)
qed

lemma matches_names_qos:
  assumes "matches_names declared_qos_elems elems"
  shows "qos_path elems"
proof -
  have declared: "length declared_qos_elems = 7"
    by (simp add: declared_qos_elems_def)
  from assms have "map Name (take 7 elems) = map Name declared_qos_elems"
    unfolding matches_names_def declared by simp
  then have names: "map Name (take 7 elems) =
      [''qos'', ''interfaces'', ''interface'', ''output'', ''queues'', ''queue'', ''state'']"
    by (simp add: declared_qos_elems_def)
  then have "length (map Name (take 7 elems)) = 7"
    by (simp only:) simp
  then have len: "7 \<le> length elems"
    by simp
  have "Name (take 7 elems ! 0) = ''qos''"
    using nth_of_map_eq [OF names, of 0] by simp
  with len show ?thesis
    by (simp add: qos_path_def)
qed

text \<open>
  Claim C5, as amended. \<^verbatim>\<open>handleUpdate\<close> reports no decode error. An update whose path
  passes neither guard of \<^verbatim>\<open>handleUpdate\<close> matches neither declared path, and it is
  skipped: the call does what it does on the notification without that update, so the
  later updates of the notification are handled, and when such an update comes alone
  the receive loop goes on with the next call of \<^verbatim>\<open>Recv\<close> in the same state. A path
  with seven or more elements of which the first is named \<open>qos\<close> is acted on whatever
  the names of its other elements, declared or not.
\<close>

theorem unrecognized_update_skipped:
  "(Path u = Some p \<and> \<not> interface_counters_path (Elem p) \<and> \<not> qos_path (Elem p) \<longrightarrow>
      \<not> matches_names declared_counters_elems (Elem p) \<and>
      \<not> matches_names declared_qos_elems (Elem p) \<and>
      handleUpdate rt c (SubscribeResponse_Update \<lparr>Update = pre @ u # post\<rparr>) st =
      handleUpdate rt c (SubscribeResponse_Update \<lparr>Update = pre @ post\<rparr>) st \<and>
      (recv i = Inr (SubscribeResponse_Update \<lparr>Update = [u]\<rparr>) \<longrightarrow>
         receive_loop rt c recv i st = receive_loop rt c recv (Suc i) st)) \<and>
   (Path u = Some p \<and> qos_path (Elem p) \<and> Val u = Some (JsonIetfVal js) \<longrightarrow>
      handleUpdate rt c (SubscribeResponse_Update \<lparr>Update = [u]\<rparr>) st =
        Inr (set_qos_stats rt (target c) (map_index (Key (Elem p ! 2)) ''name'')
               (map_index (Key (Elem p ! 5)) ''name'') (parseQoSStats rt js) st))"
proof (intro conjI impI)
  assume "Path u = Some p \<and> qos_path (Elem p) \<and> Val u = Some (JsonIetfVal js)"
  then have path: "Path u = Some p" and qos: "qos_path (Elem p)"
    and val: "Val u = Some (JsonIetfVal js)"
    by simp_all
  from qos have "\<not> interface_counters_path (Elem p)"
    using interface_counters_path_not_qos by blast
  with qos val
  show "handleUpdate rt c (SubscribeResponse_Update \<lparr>Update = [u]\<rparr>) st =
      Inr (set_qos_stats rt (target c) (map_index (Key (Elem p ! 2)) ''name'')
             (map_index (Key (Elem p ! 5)) ''name'') (parseQoSStats rt js) st)"
    by (simp add: handleUpdate_def handle_interfaces_eq [OF path] handle_qos_eq [OF path]
        bind_panic_Inr GetJsonIetfVal_def)
next
  assume skip: "Path u = Some p \<and> \<not> interface_counters_path (Elem p) \<and> \<not> qos_path (Elem p)"
  then show "\<not> matches_names declared_counters_elems (Elem p)"
    using matches_names_counters by blast
  from skip show "\<not> matches_names declared_qos_elems (Elem p)"
    using matches_names_qos by blast
  from skip have same: "handle_updates rt (target c) (u # us) s = handle_updates rt (target c) us s"
    for us s
    using handle_updates_skip [of u p rt "target c" us s] by simp
  then have "handle_updates rt (target c) (u # post) = handle_updates rt (target c) post"
    by (intro ext)
  then show "handleUpdate rt c (SubscribeResponse_Update \<lparr>Update = pre @ u # post\<rparr>) st =
      handleUpdate rt c (SubscribeResponse_Update \<lparr>Update = pre @ post\<rparr>) st"
    by (simp add: handleUpdate_def handle_updates_append)
  {
    assume received: "recv i = Inr (SubscribeResponse_Update \<lparr>Update = [u]\<rparr>)"
    have "handle_updates rt (target c) [u] st = Inr st"
      using same [of "[]" st] by (simp del: handle_updates.simps(2))
    then have "handleUpdate rt c (SubscribeResponse_Update \<lparr>Update = [u]\<rparr>) st = Inr st"
      by (simp add: handleUpdate_def del: handle_updates.simps(2))
    with received show "receive_loop rt c recv i st = receive_loop rt c recv (Suc i) st"
      by (subst receive_loop.simps) simp
  }
qed

theorem unrecognized_update_skipped_witness:
  "handleUpdate sample_runtime sample_collector
     (SubscribeResponse_Update
        \<lparr>Update = [\<lparr>Path = Some \<lparr>Origin = [], Elem = cpu_elems\<rparr>,
                     Val = Some (JsonIetfVal in_octets_json)\<rparr>,
                   \<lparr>Path = Some \<lparr>Origin = [], Elem = eth0_counters_elems\<rparr>,
                     Val = Some (JsonIetfVal in_octets_json)\<rparr>]\<rparr>) empty_state =
   handleUpdate sample_runtime sample_collector
     (json_response \<lparr>Origin = [], Elem = eth0_counters_elems\<rparr> in_octets_json) empty_state \<and>
   receive_loop sample_runtime sample_collector
     (\<lambda>i. if i = 0 then Inr (json_response \<lparr>Origin = [], Elem = cpu_elems\<rparr> in_octets_json)
           else Inl EOF) 0 empty_state =
   Some (Returned (Some (StreamError EOF)) empty_state)"
proof -
  let ?p = "\<lparr>Origin = [], Elem = cpu_elems\<rparr>"
  let ?u = "\<lparr>Path = Some ?p, Val = Some (JsonIetfVal in_octets_json)\<rparr>"
  let ?v = "\<lparr>Path = Some \<lparr>Origin = [], Elem = eth0_counters_elems\<rparr>,
    Val = Some (JsonIetfVal in_octets_json)\<rparr>"
  let ?recv = "\<lambda>i::nat. if i = 0 then Inr (json_response ?p in_octets_json) else Inl EOF"
  have skip: "Path ?u = Some ?p \<and> \<not> interface_counters_path (Elem ?p) \<and> \<not> qos_path (Elem ?p)"
    by (simp add: interface_counters_path_def qos_path_def cpu_elems_def)
  have received: "?recv 0 = Inr (SubscribeResponse_Update \<lparr>Update = [?u]\<rparr>)"
    by (simp add: json_response_def)
  have last: "receive_loop sample_runtime sample_collector ?recv (Suc 0) empty_state =
      Some (Returned (Some (StreamError EOF)) empty_state)"
    by (subst receive_loop.simps) simp
  from unrecognized_update_skipped
    [of ?u ?p sample_runtime sample_collector "[]" "[?v]" empty_state ?recv 0]
    skip received
  have "handleUpdate sample_runtime sample_collector
        (SubscribeResponse_Update \<lparr>Update = [] @ ?u # [?v]\<rparr>) empty_state =
      handleUpdate sample_runtime sample_collector
        (SubscribeResponse_Update \<lparr>Update = [] @ [?v]\<rparr>) empty_state"
    and "receive_loop sample_runtime sample_collector ?recv 0 empty_state =
      receive_loop sample_runtime sample_collector ?recv (Suc 0) empty_state"
    by blast+
  with last show ?thesis
    by (simp add: json_response_def)
qed

text \<open>
  Claim C5 as stated fails twice. \<^verbatim>\<open>handleUpdate\<close> has no result to carry a decode
  error: on an update for the path system / cpu the call returns normally with the state
  unchanged, as it does for a notification without updates. And the store is not left
  unchanged for every path that matches no declared path: an update for
  qos / a / b / c / d / e / f matches neither, and two gauges are set for it.
\<close>

theorem unrecognized_paths_silent_or_acted_on:
  "handleUpdate sample_runtime sample_collector
     (json_response \<lparr>Origin = [], Elem = cpu_elems\<rparr> in_octets_json) empty_state = Inr empty_state \<and>
   \<not> matches_names declared_counters_elems undeclared_qos_elems \<and>
   \<not> matches_names declared_qos_elems undeclared_qos_elems \<and>
   handleUpdate sample_runtime sample_collector
     (json_response \<lparr>Origin = [], Elem = undeclared_qos_elems\<rparr> in_octets_json) empty_state =
   Inr \<lparr>metrics = [(''st2110_switch_qos_buffer_utilization'', [''10.0.0.1:6030'', [], []]) \<mapsto> 0,
                   (''st2110_switch_qos_dropped_packets'', [''10.0.0.1:6030'', [], []]) \<mapsto> 0],
        logged = [], dials = 0\<rparr>"
proof (intro conjI)
  show "handleUpdate sample_runtime sample_collector
      (json_response \<lparr>Origin = [], Elem = cpu_elems\<rparr> in_octets_json) empty_state = Inr empty_state"
    by (simp add: handleUpdate_def json_response_def handle_interfaces_eq handle_qos_eq
        bind_panic_Inr interface_counters_path_def qos_path_def cpu_elems_def)
  show "\<not> matches_names declared_counters_elems undeclared_qos_elems"
    by (simp add: matches_names_def declared_counters_elems_def undeclared_qos_elems_def)
  show "\<not> matches_names declared_qos_elems undeclared_qos_elems"
    by (simp add: matches_names_def declared_qos_elems_def undeclared_qos_elems_def)
  have "parseQoSStats sample_runtime in_octets_json =
      \<lparr>BufferUtilization = 0, DroppedPackets = 0\<rparr>"
    by (simp add: parseQoSStats_def sample_runtime_def assert_float64_def)
  then show "handleUpdate sample_runtime sample_collector
      (json_response \<lparr>Origin = [], Elem = undeclared_qos_elems\<rparr> in_octets_json) empty_state =
    Inr \<lparr>metrics = [(''st2110_switch_qos_buffer_utilization'', [''10.0.0.1:6030'', [], []]) \<mapsto> 0,
                    (''st2110_switch_qos_dropped_packets'', [''10.0.0.1:6030'', [], []]) \<mapsto> 0],
         logged = [], dials = 0\<rparr>"
    by (simp add: handleUpdate_def json_response_def handle_interfaces_eq handle_qos_eq
        bind_panic_Inr interface_counters_path_def qos_path_def undeclared_qos_elems_def
        GetJsonIetfVal_def set_qos_stats_def gauge_Set_def map_index_def sample_runtime_def
        sample_collector_def empty_state_def)
qed

subsection \<open>Labels: the target, and reading by position\<close>

lemma set_interface_counters_changes:
  "metrics (set_interface_counters rt sw iface cs st) k \<noteq> metrics st k \<Longrightarrow>
   \<exists>name lvs. k = (name, sw # lvs)"
  by (auto simp: set_interface_counters_def gauge_Set_def split: if_splits)

lemma set_qos_stats_changes:
  "metrics (set_qos_stats rt sw iface queue qos st) k \<noteq> metrics st k \<Longrightarrow>
   \<exists>name lvs. k = (name, sw # lvs)"
  by (auto simp: set_qos_stats_def gauge_Set_def split: if_splits)

lemma handle_interfaces_changes:
  assumes "handle_interfaces rt sw u st = Inr st'" and "metrics st' k \<noteq> metrics st k"
  shows "\<exists>name lvs. k = (name, sw # lvs)"
proof (cases "Path u")
  case None
  with assms(1) show ?thesis
    by (simp add: handle_interfaces_nil)
next
  case (Some p)
  show ?thesis
  proof (cases "interface_counters_path (Elem p) \<and> GetJsonIetfVal (Val u) \<noteq> None")
    case False
    with assms(1) have "st' = st"
      by (cases "GetJsonIetfVal (Val u)") (auto simp: handle_interfaces_eq [OF Some])
    with assms(2) show ?thesis
      by simp
  next
    case True
    then obtain js where "GetJsonIetfVal (Val u) = Some js"
      by auto
    with True assms(1) have "st' = set_interface_counters rt sw
        (map_index (Key (Elem p ! 1)) ''name'') (parseCounters rt js) st"
      by (simp add: handle_interfaces_eq [OF Some])
    with assms(2) show ?thesis
      by (simp only: set_interface_counters_changes)
  qed
qed

lemma handle_qos_changes:
  assumes "handle_qos rt sw u st = Inr st'" and "metrics st' k \<noteq> metrics st k"
  shows "\<exists>name lvs. k = (name, sw # lvs)"
proof (cases "Path u")
  case None
  with assms(1) show ?thesis
    by (simp add: handle_qos_def deref_def bind_panic_def)
next
  case (Some p)
  show ?thesis
  proof (cases "qos_path (Elem p) \<and> GetJsonIetfVal (Val u) \<noteq> None")
    case False
    with assms(1) have "st' = st"
      by (cases "GetJsonIetfVal (Val u)") (auto simp: handle_qos_eq [OF Some])
    with assms(2) show ?thesis
      by simp
  next
    case True
    then obtain js where "GetJsonIetfVal (Val u) = Some js"
      by auto
    with True assms(1) have "st' = set_qos_stats rt sw
        (map_index (Key (Elem p ! 2)) ''name'')
        (map_index (Key (Elem p ! 5)) ''name'') (parseQoSStats rt js) st"
      by (simp add: handle_qos_eq [OF Some])
    with assms(2) show ?thesis
      by (simp only: set_qos_stats_changes)
  qed
qed

lemma handle_updates_changes:
  "handle_updates rt sw us st = Inr st' \<Longrightarrow> metrics st' k \<noteq> metrics st k \<Longrightarrow>
   \<exists>name lvs. k = (name, sw # lvs)"
proof (induction us arbitrary: st)
  case Nil
  then show ?case by simp
next
  case (Cons u us)
  from Cons.prems(1) obtain st1 st2 where st1: "handle_interfaces rt sw u st = Inr st1"
    and st2: "handle_qos rt sw u st1 = Inr st2"
    and rest: "handle_updates rt sw us st2 = Inr st'"
    by (auto simp: bind_panic_def split: sum.splits)
  consider "metrics st' k \<noteq> metrics st2 k" | "metrics st2 k \<noteq> metrics st1 k"
    | "metrics st1 k \<noteq> metrics st k"
    using Cons.prems(2) by fastforce
  then show ?case
  proof cases
    case 1
    with rest show ?thesis by (rule Cons.IH)
  next
    case 2
    with st2 show ?thesis by (rule handle_qos_changes)
  next
    case 3
    with st1 show ?thesis by (rule handle_interfaces_changes)
  qed
qed

lemma add_queue_drops_changes:
  "metrics (add_queue_drops rt c p v st) k \<noteq> metrics st k \<Longrightarrow>
   k = (''arista_hw_queue_drops_total'',
        [AristaEOSCollector.target c, map_index (Key (Elem p ! 4)) ''name'',
         map_index (Key (Elem p ! 6)) ''queue-id''])"
  by (auto simp: add_queue_drops_def counter_Add_def log_Println_def Let_def split: if_splits)

lemma handle_arista_changes:
  assumes "Path u = Some p" and "handle_arista rt c u st = Inr st'"
    and "metrics st' k \<noteq> metrics st k"
  shows "k = (''arista_hw_queue_drops_total'',
        [AristaEOSCollector.target c, map_index (Key (Elem p ! 4)) ''name'',
         map_index (Key (Elem p ! 6)) ''queue-id''])"
  using assms(2,3) add_queue_drops_changes [of rt c p "Val u" st k]
  by (auto simp: handle_arista_eq [OF assms(1)] split: if_splits)

lemma handle_arista_updates_changes:
  "handle_arista_updates rt c us st = Inr st' \<Longrightarrow> metrics st' k \<noteq> metrics st k \<Longrightarrow>
   \<exists>name lvs. k = (name, AristaEOSCollector.target c # lvs)"
proof (induction us arbitrary: st)
  case Nil
  then show ?case by simp
next
  case (Cons u us)
  from Cons.prems(1) obtain st1 where st1: "handle_arista rt c u st = Inr st1"
    and rest: "handle_arista_updates rt c us st1 = Inr st'"
    by (auto simp: bind_panic_def split: sum.splits)
  from st1 obtain p where path: "Path u = Some p"
    by (cases "Path u") (simp_all add: handle_arista_nil)
  consider "metrics st' k \<noteq> metrics st1 k" | "metrics st1 k \<noteq> metrics st k"
    using Cons.prems(2) by fastforce
  then show ?case
  proof cases
    case 1
    with rest show ?thesis by (rule Cons.IH)
  next
    case 2
    with path st1 have "k = (''arista_hw_queue_drops_total'',
        [AristaEOSCollector.target c, map_index (Key (Elem p ! 4)) ''name'',
         map_index (Key (Elem p ! 6)) ''queue-id''])"
      by (rule handle_arista_changes)
    then show ?thesis by blast
  qed
qed

lemma walk_module_status_changes:
  "walk_module_status rt e pdus st = Inr st' \<Longrightarrow> metrics st' k \<noteq> metrics st k \<Longrightarrow>
   k = (''evertz_eqx_module_status'', [''1'', ''5'', ''unknown''])"
proof (induction pdus arbitrary: st)
  case Nil
  then show ?case by simp
next
  case (Cons pdu pdus)
  from Cons.prems(1) obtain st1 where st1: "module_status_pdu rt e pdu st = Inr st1"
    and rest: "walk_module_status rt e pdus st1 = Inr st'"
    by (auto simp: bind_panic_def split: sum.splits)
  from st1 have keep: "metrics st1 k \<noteq> metrics st k \<Longrightarrow>
      k = (''evertz_eqx_module_status'', [''1'', ''5'', ''unknown''])"
    by (auto simp: module_status_pdu_def parseEvertzOID_def splitOID_def bind_panic_def
        gauge_Set_def split: snmp_value.splits if_splits)
  consider "metrics st' k \<noteq> metrics st1 k" | "metrics st1 k \<noteq> metrics st k"
    using Cons.prems(2) by fastforce
  then show ?case
  proof cases
    case 1
    with rest show ?thesis by (rule Cons.IH)
  next
    case 2
    then show ?thesis by (rule keep)
  qed
qed

text \<open>
  Claim C8, as amended. Every entry of the store that \<^verbatim>\<open>handleUpdate\<close> or
  \<^verbatim>\<open>handleAristaUpdate\<close> creates or changes has the target of its collector as its
  first label value. The entries that \<^verbatim>\<open>collectSNMP\<close> of the Evertz exporter creates
  or changes are labelled by chassis, slot and module type only.
\<close>

theorem points_carry_target:
  "(handleUpdate rt c response st = Inr st' \<and> metrics st' k \<noteq> metrics st k \<longrightarrow>
      (\<exists>name lvs. k = (name, target c # lvs))) \<and>
   (handleAristaUpdate rt a response sa = Inr sa' \<and> metrics sa' k \<noteq> metrics sa k \<longrightarrow>
      (\<exists>name lvs. k = (name, AristaEOSCollector.target a # lvs))) \<and>
   (collectSNMP rt e pdus walk_err se = Inr (err, se') \<and> metrics se' k \<noteq> metrics se k \<longrightarrow>
      (\<exists>chassis slot. k = (''evertz_eqx_module_status'', [chassis, slot, ''unknown''])))"
proof (intro conjI impI)
  assume "handleUpdate rt c response st = Inr st' \<and> metrics st' k \<noteq> metrics st k"
  then show "\<exists>name lvs. k = (name, target c # lvs)"
    using handle_updates_changes [of rt "target c" _ st st' k]
    by (cases response) (auto simp: handleUpdate_def log_Println_def)
next
  assume "handleAristaUpdate rt a response sa = Inr sa' \<and> metrics sa' k \<noteq> metrics sa k"
  then show "\<exists>name lvs. k = (name, AristaEOSCollector.target a # lvs)"
    using handle_arista_updates_changes [of rt a _ sa sa' k]
    by (cases response) (auto simp: handleAristaUpdate_def)
next
  assume "collectSNMP rt e pdus walk_err se = Inr (err, se') \<and> metrics se' k \<noteq> metrics se k"
  then show "\<exists>chassis slot. k = (''evertz_eqx_module_status'', [chassis, slot, ''unknown''])"
    using walk_module_status_changes [of rt e pdus se se' k]
    by (auto simp: collectSNMP_def bind_panic_def split: sum.splits)
qed


theorem points_carry_target_witness:
  "\<exists>st'. handleUpdate sample_runtime sample_collector
            (json_response \<lparr>Origin = [], Elem = eth0_counters_elems\<rparr> in_octets_json)
            empty_state = Inr st' \<and>
         metrics st' (''st2110_switch_interface_rx_bytes'', [''10.0.0.1:6030'', ''eth0'']) \<noteq>
           metrics empty_state (''st2110_switch_interface_rx_bytes'', [''10.0.0.1:6030'', ''eth0'']) \<and>
         (\<exists>name lvs. (''st2110_switch_interface_rx_bytes'', [''10.0.0.1:6030'', ''eth0'']) =
            (name, target sample_collector # lvs))"
proof -
  let ?k = "(''st2110_switch_interface_rx_bytes'', [''10.0.0.1:6030'', ''eth0''])"
  let ?r = "json_response \<lparr>Origin = [], Elem = eth0_counters_elems\<rparr> in_octets_json"
  have path: "interface_counters_path (Elem \<lparr>Origin = [], Elem = eth0_counters_elems\<rparr>)"
    by (simp add: interface_counters_path_def eth0_counters_elems_def)
  let ?st' = "set_interface_counters sample_runtime (target sample_collector)
      (map_index (Key (Elem \<lparr>Origin = [], Elem = eth0_counters_elems\<rparr> ! 1)) ''name'')
      (parseCounters sample_runtime in_octets_json) empty_state"
  have run: "handleUpdate sample_runtime sample_collector ?r empty_state = Inr ?st'"
    using path by (rule handleUpdate_json_response)
  have changed: "metrics ?st' ?k \<noteq> metrics empty_state ?k"
    by (simp add: set_interface_counters_def gauge_Set_def empty_state_def
        sample_collector_def eth0_counters_elems_def map_index_def)
  have "handleUpdate sample_runtime sample_collector ?r empty_state = Inr ?st' \<and>
      metrics ?st' ?k \<noteq> metrics empty_state ?k"
    using run changed by (rule conjI)
  with points_carry_target [of sample_runtime sample_collector ?r empty_state ?st' ?k]
  have "\<exists>name lvs. ?k = (name, target sample_collector # lvs)"
    by (rule conjunct1 [THEN mp])
  with run changed show ?thesis
    by (intro exI [of _ ?st'] conjI)
qed

text \<open>
  Claim C8 as stated fails on the Evertz exporter: the point written for a PDU of the
  target \<open>10.0.0.3\<close> has the label values \<open>1\<close>, \<open>5\<close>, \<open>unknown\<close>, and the target is
  not among them.
\<close>

theorem evertz_point_without_target:
  "collectSNMP sample_runtime sample_exporter [sample_pdu] None empty_state =
     Inr (None, \<lparr>metrics = [(''evertz_eqx_module_status'', [''1'', ''5'', ''unknown'']) \<mapsto> 1],
                 logged = [], dials = 0\<rparr>) \<and>
   EvertzEQXExporter.target sample_exporter \<notin> set [''1'', ''5'', ''unknown'']"
  by (simp add: collectSNMP_def module_status_pdu_def parseEvertzOID_def splitOID_def
      bind_panic_def gauge_Set_def sample_pdu_def sample_exporter_def sample_runtime_def
      empty_state_def)

lemma hw_queue_drops_path_cong:
  assumes origin: "Origin p' = Origin p"
    and keys: "map Key (Elem p') = map Key (Elem p)"
    and names: "drop 7 (map Name (Elem p')) = drop 7 (map Name (Elem p))"
  shows "hw_queue_drops_path p' = hw_queue_drops_path p"
proof (cases "length (Elem p) > 7")
  case long: True
  have len: "length (Elem p') = length (Elem p)"
    using keys by (metis length_map)
  have "drop 7 (map Name (Elem p')) ! 0 = drop 7 (map Name (Elem p)) ! 0"
    by (simp only: names)
  with long len have "Name (Elem p' ! 7) = Name (Elem p ! 7)"
    by simp
  then show ?thesis
    by (simp add: hw_queue_drops_path_def origin len)
next
  case short: False
  have len: "length (Elem p') = length (Elem p)"
    using keys by (metis length_map)
  with short show ?thesis
    by (simp add: hw_queue_drops_path_def)
qed

lemma add_queue_drops_cong:
  assumes keys: "map Key (Elem p') = map Key (Elem p)"
    and long: "length (Elem p) > 7"
  shows "add_queue_drops rt c p' v st = add_queue_drops rt c p v st"
proof -
  have "Key (Elem p' ! 4) = Key (Elem p ! 4)"
    using nth_of_map_eq [OF keys, of 4] long by simp
  moreover have "Key (Elem p' ! 6) = Key (Elem p ! 6)"
    using nth_of_map_eq [OF keys, of 6] long by simp
  ultimately show ?thesis
    by (simp add: add_queue_drops_def)
qed

text \<open>
  Claim C7, as amended. \<^verbatim>\<open>handleAristaUpdate\<close> goes by position. Two updates with the
  same origin, the same value, the same keys at every index and the same element names
  from index 7 on are treated alike, whatever the names of their first seven elements;
  and an entry that the handler creates or changes is the queue-drop counter under the
  target, the key \<open>name\<close> of element 4 and the key \<open>queue-id\<close> of element 6.
\<close>

theorem arista_reads_by_position:
  assumes path: "Path u = Some p" and path': "Path u' = Some p'"
    and origin: "Origin p' = Origin p" and val: "Val u' = Val u"
    and keys: "map Key (Elem p') = map Key (Elem p)"
    and names: "drop 7 (map Name (Elem p')) = drop 7 (map Name (Elem p))"
  shows "handleAristaUpdate rt c (SubscribeResponse_Update \<lparr>Update = [u']\<rparr>) st =
         handleAristaUpdate rt c (SubscribeResponse_Update \<lparr>Update = [u]\<rparr>) st \<and>
    (\<exists>st'. handleAristaUpdate rt c (SubscribeResponse_Update \<lparr>Update = [u]\<rparr>) st = Inr st' \<and>
       (\<forall>k. metrics st' k \<noteq> metrics st k \<longrightarrow>
          k = (''arista_hw_queue_drops_total'',
               [AristaEOSCollector.target c, map_index (Key (Elem p ! 4)) ''name'',
                map_index (Key (Elem p ! 6)) ''queue-id''])))"
proof
  have same: "hw_queue_drops_path p' = hw_queue_drops_path p"
    using origin keys names by (rule hw_queue_drops_path_cong)
  show "handleAristaUpdate rt c (SubscribeResponse_Update \<lparr>Update = [u']\<rparr>) st =
      handleAristaUpdate rt c (SubscribeResponse_Update \<lparr>Update = [u]\<rparr>) st"
  proof (cases "hw_queue_drops_path p")
    case False
    with same show ?thesis
      by (simp add: handleAristaUpdate_def handle_arista_eq [OF path]
          handle_arista_eq [OF path'] bind_panic_Inr)
  next
    case True
    then have "length (Elem p) > 7"
      by (simp add: hw_queue_drops_path_def)
    with keys have "add_queue_drops rt c p' (Val u) st = add_queue_drops rt c p (Val u) st"
      by (rule add_queue_drops_cong)
    with same True show ?thesis
      by (simp add: handleAristaUpdate_def handle_arista_eq [OF path]
          handle_arista_eq [OF path'] bind_panic_Inr val)
  qed
  obtain st' where st': "handle_arista rt c u st = Inr st'"
    by (simp add: handle_arista_eq [OF path])
  then have "handleAristaUpdate rt c (SubscribeResponse_Update \<lparr>Update = [u]\<rparr>) st = Inr st'"
    by (simp add: handleAristaUpdate_def bind_panic_Inr)
  with handle_arista_changes [OF path st']
  show "\<exists>st'. handleAristaUpdate rt c (SubscribeResponse_Update \<lparr>Update = [u]\<rparr>) st = Inr st' \<and>
       (\<forall>k. metrics st' k \<noteq> metrics st k \<longrightarrow>
          k = (''arista_hw_queue_drops_total'',
               [AristaEOSCollector.target c, map_index (Key (Elem p ! 4)) ''name'',
                map_index (Key (Elem p ! 6)) ''queue-id'']))"
    by blast
qed

theorem arista_reads_by_position_witness:
  "handleAristaUpdate sample_runtime sample_arista (uint_response renamed_drops_elems 5) empty_state =
   handleAristaUpdate sample_runtime sample_arista (uint_response short_drops_elems 5) empty_state"
proof -
  let ?p' = "\<lparr>Origin = ''arista'', Elem = renamed_drops_elems\<rparr>"
  let ?p = "\<lparr>Origin = ''arista'', Elem = short_drops_elems\<rparr>"
  let ?u' = "\<lparr>Path = Some ?p', Val = Some (UintVal 5)\<rparr>"
  let ?u = "\<lparr>Path = Some ?p, Val = Some (UintVal 5)\<rparr>"
  have path: "Path ?u = Some ?p" and path': "Path ?u' = Some ?p'"
    and origin: "Origin ?p' = Origin ?p" and val: "Val ?u' = Val ?u"
    by simp_all
  have keys: "map Key (Elem ?p') = map Key (Elem ?p)"
    by (simp add: renamed_drops_elems_def short_drops_elems_def)
  have names: "drop 7 (map Name (Elem ?p')) = drop 7 (map Name (Elem ?p))"
    by (simp add: renamed_drops_elems_def short_drops_elems_def)
  from arista_reads_by_position [OF path path' origin val keys names, of sample_runtime
      sample_arista empty_state]
  show ?thesis
    by (simp add: uint_response_def)
qed

text \<open>
  Claim C7 as stated fails: a path whose element names match no declared path is acted
  on, and its labels are read at the indices 4 and 6.
\<close>

theorem arista_acts_on_undeclared_path:
  "\<not> matches_template declared_queue_drops_path \<lparr>Origin = ''arista'', Elem = renamed_drops_elems\<rparr> \<and>
   handleAristaUpdate sample_runtime sample_arista (uint_response renamed_drops_elems 5)
     empty_state =
   Inr \<lparr>metrics = [(''arista_hw_queue_drops_total'', [''10.0.0.2:6030'', ''Ethernet1'', ''3'']) \<mapsto> 5],
        logged = [PrintQueueDrops ''10.0.0.2:6030'' ''Ethernet1'' ''3'' 5],
        dials = 0\<rparr>"
  by (simp add: matches_template_def declared_queue_drops_path_def declared_queue_drops_elems_def
      handleAristaUpdate_def uint_response_def handle_arista_eq bind_panic_Inr
      hw_queue_drops_path_def renamed_drops_elems_def add_queue_drops_def GetUintVal_def
      counter_Add_def log_Println_def sample_runtime_def sample_arista_def empty_state_def
      map_index_def Let_def)

text \<open>
  The other direction: an update on the declared path itself, \<open>dropped-pkts\<close> being its
  element 8, is not acted on, since the handler looks for that name at index 7.
\<close>

lemma declared_path_is_ignored:
  "matches_template declared_queue_drops_path \<lparr>Origin = ''arista'', Elem = full_drops_elems\<rparr> \<and>
   handleAristaUpdate sample_runtime sample_arista (uint_response full_drops_elems 5) empty_state =
   Inr empty_state"
  by (simp add: matches_template_def declared_queue_drops_path_def declared_queue_drops_elems_def
      handleAristaUpdate_def uint_response_def handle_arista_eq bind_panic_Inr
      hw_queue_drops_path_def full_drops_elems_def)

end
